theory Spec2Isabelle
  imports Complex_Main
begin

section \<open>Data model (src/unnamed/part_004, imported as types)\<close>

text \<open>
  JavaScript numbers are modelled as follows: point balances, risk scores and hash values
  are integers (\<open>int\<close>); coordinates, accuracies, ages and distances are \<open>real\<close>, so
  rounding of IEEE doubles is not modelled. An ISO-8601 time string produced by
  \<open>toISOString\<close> is modelled by the epoch milliseconds that \<open>new Date(s).getTime()\<close>
  reads back from it. Strings are \<open>string\<close>; a character stands for one code unit.
\<close>

type_synonym timestamp = int

record coordinates =
  latitude :: real
  longitude :: real

datatype bin_status = available | reported_full | temporarily_disabled

record bin =
  bin_id :: string
  bin_name :: string
  bin_qrCodeId :: string
  bin_ward :: string
  bin_location :: coordinates
  bin_status :: bin_status
  bin_lastUsedAt :: "timestamp option"
  bin_createdAt :: timestamp

datatype waste_size_class = large | medium | small | home_daily

datatype wallet_entry_type = earn | redeem

datatype wallet_entry_source =
  ai_disposal_verified | first_time_bonus | coupon_redemption | manual_adjustment

record wallet_entry =
  we_id :: string
  we_type :: wallet_entry_type
  we_points :: int
  we_reason :: string
  we_source :: wallet_entry_source
  we_referenceId :: "string option"
  we_createdAt :: timestamp

record wallet_state =
  points :: int
  history :: "wallet_entry list"

datatype redemption_status = active | used | expired

record redemption_record =
  rr_id :: string
  rr_rewardId :: string
  rr_rewardTitle :: string
  rr_couponCode :: string
  rr_pointsUsed :: int
  rr_createdAt :: timestamp
  rr_expiresAt :: timestamp
  rr_status :: redemption_status

datatype fraud_alert_type =
  duplicate_image | location_anomaly | before_after_mismatch | qr_mismatch
  | geo_fence_failure | mock_location_detected | cooldown_violation
  | location_accuracy_failure | timestamp_invalid

datatype severity = sev_low | sev_medium | sev_high

datatype alert_status = alert_open | alert_reviewed | alert_blocked

record fraud_alert =
  fa_id :: string
  fa_type :: fraud_alert_type
  fa_severity :: severity
  fa_message :: string
  fa_actionId :: string
  fa_riskScore :: int
  fa_status :: alert_status
  fa_createdAt :: timestamp

record disposal_image_validation =
  qualityPassed :: bool
  binDetected :: bool
  wasteDetected :: bool
  confidence :: real
  failureReason :: "string option"

record disposal_record =
  dr_id :: string
  dr_userId :: string
  dr_binId :: string
  dr_qrCodeId :: string
  dr_photoUri :: string
  dr_imageHash :: string
  dr_location :: coordinates
  dr_accuracyMeters :: real
  dr_createdAt :: timestamp
  dr_distanceMeters :: real
  geoVerified :: bool
  qrVerified :: bool
  aiVerified :: bool
  dr_wasteSize :: waste_size_class
  dr_fraudFlags :: "fraud_alert_type list"
  verified :: bool
  pointsAwarded :: int
  rejectionReason :: "string option"

datatype issue_category =
  roadside_dumping | overflowing_bin | open_garbage_heap | blocked_drain
  | public_area_unclean

record cleanup_proof =
  cp_id :: string
  cp_submittedBy :: string
  cp_photoUri :: string
  cp_imageHash :: string
  cp_location :: coordinates
  cp_accuracyMeters :: real
  cp_createdAt :: timestamp
  cp_watermark :: string
  cp_distanceFromComplaintMeters :: real
  aiCleanVerified :: bool
  cp_fraudFlags :: "fraud_alert_type list"

datatype complaint_status = c_open | c_assigned | c_in_progress | c_resolved

record verification =
  v_verifiedBy :: string
  v_accepted :: bool
  v_notes :: "string option"
  v_verifiedAt :: timestamp

record complaint =
  c_id :: string
  c_userId :: string
  c_category :: issue_category
  c_description :: string
  c_photoUri :: string
  c_imageHash :: string
  c_location :: coordinates
  c_createdAt :: timestamp
  c_status :: complaint_status
  reportFraudFlags :: "fraud_alert_type list"
  cleanupProof :: "cleanup_proof option"
  resolvedAt :: "timestamp option"
  c_verification :: "verification option"

record user_location_snapshot =
  uls_location :: coordinates
  uls_accuracyMeters :: real
  uls_timestamp :: timestamp

datatype location_strength = strong | str_medium | weak | str_none

record location_snapshot =
  ls_location :: coordinates
  ls_accuracyMeters :: real
  ls_timestamp :: timestamp
  ageSeconds :: real
  isMocked :: bool
  strength :: location_strength

text \<open>
  A \<open>PendingAction\<close> carries its type as a string tag and an untyped payload that
  \<open>applyAction\<close> casts per tag; the model makes the payload a tagged union, one
  constructor per \<open>PendingActionType\<close>.
\<close>

record dispose_payload =
  d_binId :: string
  d_qrCodeId :: string
  d_photoUri :: string
  d_wasteSize :: waste_size_class
  d_location :: location_snapshot
  d_userId :: string
  d_createdAt :: timestamp

record report_issue_payload =
  ri_category :: issue_category
  ri_description :: string
  ri_photoUri :: string
  ri_location :: location_snapshot
  ri_userId :: string
  ri_createdAt :: timestamp

record submit_cleanup_payload =
  sc_complaintId :: string
  sc_photoUri :: string
  sc_location :: location_snapshot
  sc_userId :: string
  sc_createdAt :: timestamp

record verify_cleanup_payload =
  vc_complaintId :: string
  vc_accepted :: bool
  vc_notes :: "string option"
  vc_verifiedBy :: string
  vc_createdAt :: timestamp

record redeem_reward_payload =
  rd_rewardId :: string
  rd_rewardTitle :: string
  rd_pointsRequired :: int
  rd_createdAt :: timestamp

record report_bin_full_payload =
  bf_binId :: string
  bf_reason :: string

datatype action_payload =
  Dispose dispose_payload
  | Report_issue report_issue_payload
  | Submit_cleanup submit_cleanup_payload
  | Verify_cleanup verify_cleanup_payload
  | Redeem_reward redeem_reward_payload
  | Report_bin_full report_bin_full_payload

record pending_action =
  pa_id :: string
  pa_payload :: action_payload
  pa_createdAt :: timestamp

record app_state =
  isOnline :: bool
  bins :: "bin list"
  disposals :: "disposal_record list"
  complaints :: "complaint list"
  wallet :: wallet_state
  redemptions :: "redemption_record list"
  fraudAlerts :: "fraud_alert list"
  pendingActions :: "pending_action list"
  usedImageHashes :: "string list"
  lastActionByUser :: "string \<rightharpoonup> user_location_snapshot"
  syncLog :: "string list"

text \<open>
  What one call of \<open>applyAction\<close> reads from the JavaScript host: the clock
  (\<open>Date.now()\<close>, also behind \<open>nowIso()\<close>; the few reads within one call are taken
  to return one value), the clock's locale rendering used by \<open>addLog\<close>, the random
  identifiers \<open>makeId('wallet')\<close> returns, the random coupon code, and the
  renderings the cleanup watermark splices in (an ISO time string as stored in the
  payload, and \<open>toFixed(5)\<close> of a coordinate), which the model does not interpret.
\<close>

record host =
  dateNow :: timestamp
  localeTimeString :: string
  walletId1 :: string
  walletId2 :: string
  couponCode :: string
  isoString :: "timestamp \<Rightarrow> string"
  toFixed5 :: "real \<Rightarrow> string"

section \<open>Fraud rules (civic-mobile/src/services/fraud.ts)\<close>

definition isDuplicateImage :: "string list \<Rightarrow> string \<Rightarrow> bool" where
  "isDuplicateImage usedHashes imgHash = (imgHash \<in> set usedHashes)"

text \<open>The string a \<open>FraudAlertType\<close> value is, where it is spliced into a template.\<close>

fun fraudTypeName :: "fraud_alert_type \<Rightarrow> string" where
  "fraudTypeName duplicate_image = ''duplicate_image''"
| "fraudTypeName location_anomaly = ''location_anomaly''"
| "fraudTypeName before_after_mismatch = ''before_after_mismatch''"
| "fraudTypeName qr_mismatch = ''qr_mismatch''"
| "fraudTypeName geo_fence_failure = ''geo_fence_failure''"
| "fraudTypeName mock_location_detected = ''mock_location_detected''"
| "fraudTypeName cooldown_violation = ''cooldown_violation''"
| "fraudTypeName location_accuracy_failure = ''location_accuracy_failure''"
| "fraudTypeName timestamp_invalid = ''timestamp_invalid''"

definition makeFraudAlert ::
  "fraud_alert_type \<Rightarrow> string \<Rightarrow> string \<Rightarrow> severity \<Rightarrow> timestamp \<Rightarrow> int \<Rightarrow> fraud_alert" where
  "makeFraudAlert type actionId message sev createdAt riskScore =
     \<lparr> fa_id = ''fraud-'' @ actionId @ ''-'' @ fraudTypeName type,
       fa_type = type,
       fa_severity = sev,
       fa_message = message,
       fa_actionId = actionId,
       fa_riskScore = riskScore,
       fa_status = (if riskScore \<ge> 80 then alert_blocked else alert_open),
       fa_createdAt = createdAt \<rparr>"

fun TYPE_SCORE :: "fraud_alert_type \<Rightarrow> int" where
  "TYPE_SCORE duplicate_image = 40"
| "TYPE_SCORE location_anomaly = 50"
| "TYPE_SCORE before_after_mismatch = 45"
| "TYPE_SCORE qr_mismatch = 20"
| "TYPE_SCORE geo_fence_failure = 50"
| "TYPE_SCORE mock_location_detected = 50"
| "TYPE_SCORE cooldown_violation = 30"
| "TYPE_SCORE location_accuracy_failure = 20"
| "TYPE_SCORE timestamp_invalid = 20"

text \<open>\<open>types.reduce((sum, item) => sum + TYPE_SCORE[item], 0)\<close> is a left fold.\<close>

definition fraudRiskScore :: "fraud_alert_type list \<Rightarrow> int" where
  "fraudRiskScore types = foldl (\<lambda>sum item. sum + TYPE_SCORE item) 0 types"

section \<open>Seed data and reward constants (civic-mobile/src/data/bins.ts)\<close>

text \<open>
  \<open>MADURAI_BINS\<close> stamps every bin with the time the module was loaded; that time is
  the parameter \<open>loadedAt\<close>.
\<close>

definition MADURAI_BINS :: "timestamp \<Rightarrow> bin list" where
  "MADURAI_BINS loadedAt =
    [ \<lparr> bin_id = ''bin-001'', bin_name = ''Periyar Bus Stand Bin Hub'',
        bin_qrCodeId = ''MMC-BIN-001'', bin_ward = ''Ward 12'',
        bin_location = \<lparr> latitude = 9.9166, longitude = 78.1194 \<rparr>,
        bin_status = available, bin_lastUsedAt = None, bin_createdAt = loadedAt \<rparr>,
      \<lparr> bin_id = ''bin-002'', bin_name = ''Goripalayam Smart Bin'',
        bin_qrCodeId = ''MMC-BIN-002'', bin_ward = ''Ward 23'',
        bin_location = \<lparr> latitude = 9.9324, longitude = 78.1306 \<rparr>,
        bin_status = available, bin_lastUsedAt = None, bin_createdAt = loadedAt \<rparr>,
      \<lparr> bin_id = ''bin-003'', bin_name = ''KK Nagar Community Bin'',
        bin_qrCodeId = ''MMC-BIN-003'', bin_ward = ''Ward 38'',
        bin_location = \<lparr> latitude = 9.8912, longitude = 78.1331 \<rparr>,
        bin_status = available, bin_lastUsedAt = None, bin_createdAt = loadedAt \<rparr>,
      \<lparr> bin_id = ''bin-004'', bin_name = ''Mattuthavani Transport Hub Bin'',
        bin_qrCodeId = ''MMC-BIN-004'', bin_ward = ''Ward 45'',
        bin_location = \<lparr> latitude = 9.9287, longitude = 78.1482 \<rparr>,
        bin_status = available, bin_lastUsedAt = None, bin_createdAt = loadedAt \<rparr>,
      \<lparr> bin_id = ''bin-005'', bin_name = ''Simmakkal Riverfront Bin'',
        bin_qrCodeId = ''MMC-BIN-005'', bin_ward = ''Ward 9'',
        bin_location = \<lparr> latitude = 9.9255, longitude = 78.1144 \<rparr>,
        bin_status = available, bin_lastUsedAt = None, bin_createdAt = loadedAt \<rparr> ]"

definition FIRST_TIME_USER_BONUS_POINTS :: int where
  "FIRST_TIME_USER_BONUS_POINTS = 50"

fun REGULAR_REWARD_POINTS :: "waste_size_class \<Rightarrow> int" where
  "REGULAR_REWARD_POINTS large = 20"
| "REGULAR_REWARD_POINTS medium = 10"
| "REGULAR_REWARD_POINTS small = 3"
| "REGULAR_REWARD_POINTS home_daily = 0"

definition DISPOSAL_COOLDOWN_HOURS :: int where
  "DISPOSAL_COOLDOWN_HOURS = 2"

section \<open>Great-circle distance (civic-mobile/src/utils/geo.ts)\<close>

text \<open>
  The trigonometric functions are those of the reals: \<open>distanceMeters\<close> is the value the
  haversine formula denotes, not the double a JavaScript engine rounds it to. What is
  proved below about the decision engine holds whatever distance is computed, and the
  concrete inputs place the fix at the bin's own coordinates, where the distance is 0
  in the reals and in doubles alike.
\<close>

definition EARTH_RADIUS_METERS :: real where
  "EARTH_RADIUS_METERS = 6371000"

definition toRadians :: "real \<Rightarrow> real" where
  "toRadians v = (v * pi) / 180"

text \<open>\<open>Math.atan2(y, x)\<close> over the reals: the angle of the point \<open>(x, y)\<close> in \<open>(-pi, pi]\<close>.\<close>

definition atan2 :: "real \<Rightarrow> real \<Rightarrow> real" where
  "atan2 y x =
     (if x > 0 then arctan (y / x)
      else if x < 0 then (if y \<ge> 0 then arctan (y / x) + pi else arctan (y / x) - pi)
      else if y > 0 then pi / 2
      else if y < 0 then - (pi / 2)
      else 0)"

definition distanceMeters :: "coordinates \<Rightarrow> coordinates \<Rightarrow> real" where
  "distanceMeters src dst =
     (let dLatitude = toRadians (latitude dst - latitude src);
          dLongitude = toRadians (longitude dst - longitude src);
          fromLat = toRadians (latitude src);
          toLat = toRadians (latitude dst);
          a = sin (dLatitude / 2) * sin (dLatitude / 2)
              + sin (dLongitude / 2) * sin (dLongitude / 2) * cos fromLat * cos toLat;
          c = 2 * atan2 (sqrt a) (sqrt (1 - a))
      in EARTH_RADIUS_METERS * c)"

text \<open>\<open>isLocationAnomaly\<close> of fraud.ts, placed here because it measures a distance.\<close>

definition LOCATION_SPEED_THRESHOLD_METERS_PER_SECOND :: real where
  "LOCATION_SPEED_THRESHOLD_METERS_PER_SECOND = 33.33"

definition LOCATION_JUMP_THRESHOLD_METERS :: real where
  "LOCATION_JUMP_THRESHOLD_METERS = 2000"

definition isLocationAnomaly ::
  "user_location_snapshot option \<Rightarrow> coordinates \<Rightarrow> timestamp \<Rightarrow> bool" where
  "isLocationAnomaly previous currentLocation currentTimestamp =
     (case previous of
        None \<Rightarrow> False
      | Some prev \<Rightarrow>
          (let previousTime = uls_timestamp prev;
               currentTime = currentTimestamp;
               elapsedSeconds = max (real_of_int (currentTime - previousTime) / 1000) 1;
               travelDistance = distanceMeters (uls_location prev) currentLocation;
               speed = travelDistance / elapsedSeconds
           in speed > LOCATION_SPEED_THRESHOLD_METERS_PER_SECOND
              \<or> travelDistance > LOCATION_JUMP_THRESHOLD_METERS))"

section \<open>Image checks (civic-mobile/src/services/ai.ts)\<close>

text \<open>
  \<open>hash << 5\<close> and \<open>hash |= 0\<close> work on 32-bit signed integers; \<open>toInt32\<close> is the
  wrap-around into \<open>[-2^31, 2^31)\<close>.
\<close>

definition toInt32 :: "int \<Rightarrow> int" where
  "toInt32 x = (x + 2147483648) mod 4294967296 - 2147483648"

fun hashLoop :: "int \<Rightarrow> string \<Rightarrow> int" where
  "hashLoop hash [] = hash"
| "hashLoop hash (c # cs) = hashLoop (toInt32 (toInt32 (hash * 32) - hash + of_char c)) cs"

definition hashString :: "string \<Rightarrow> int" where
  "hashString v = \<bar>hashLoop 0 v\<bar>"

definition hexDigit :: "nat \<Rightarrow> char" where
  "hexDigit d = ''0123456789abcdef'' ! d"

fun toString16 :: "nat \<Rightarrow> string" where
  "toString16 n =
     (if n < 16 then [hexDigit n] else toString16 (n div 16) @ [hexDigit (n mod 16)])"

declare toString16.simps [simp del]

definition padStart :: "nat \<Rightarrow> char \<Rightarrow> string \<Rightarrow> string" where
  "padStart targetLength pad s = replicate (targetLength - length s) pad @ s"

definition imageHash :: "string \<Rightarrow> string" where
  "imageHash v = padStart 8 (CHR ''0'') (toString16 (nat \<bar>hashString v\<bar>))"

text \<open>\<open>toLowerCase\<close> on code units below 256: the ASCII and Latin-1 capital letters.\<close>

definition toLowerCaseChar :: "char \<Rightarrow> char" where
  "toLowerCaseChar c =
     (let n = (of_char c :: nat)
      in if (65 \<le> n \<and> n \<le> 90) \<or> (192 \<le> n \<and> n \<le> 222 \<and> n \<noteq> 215)
         then char_of (n + 32) else c)"

definition toLowerCase :: "string \<Rightarrow> string" where
  "toLowerCase s = map toLowerCaseChar s"

fun includes_str :: "string \<Rightarrow> string \<Rightarrow> bool" where
  "includes_str [] sub = (sub = [])"
| "includes_str (c # cs) sub = (take (length sub) (c # cs) = sub \<or> includes_str cs sub)"

record quality_result =
  ok :: bool
  reason :: "string option"

definition qualityCheck :: "string \<Rightarrow> quality_result" where
  "qualityCheck photoUri =
     (if photoUri = [] \<or> length photoUri < 10
      then \<lparr> ok = False, reason = Some ''Image capture failed. Please retake.'' \<rparr>
      else
        (let uri = toLowerCase photoUri
         in if includes_str uri ''screenshot'' \<or> includes_str uri ''screenrecord''
            then \<lparr> ok = False,
                   reason = Some ''Screenshot-like image rejected. Use live camera only.'' \<rparr>
            else if length photoUri mod 17 = 0
            then \<lparr> ok = False, reason = Some ''Image is blurry. Please retake.'' \<rparr>
            else \<lparr> ok = True, reason = None \<rparr>))"

text \<open>
  The confidence is \<open>0.6 + k / 100\<close> for an integer \<open>k\<close> in \<open>[0, 40)\<close>, so
  \<open>toFixed(2)\<close> leaves \<open>Math.min(confidence, 0.98)\<close> as it is.
\<close>

definition validateDisposalImage :: "string \<Rightarrow> string \<Rightarrow> disposal_image_validation" where
  "validateDisposalImage photoUri qrCodeId =
     (let quality = qualityCheck photoUri
      in if \<not> ok quality
         then \<lparr> qualityPassed = False, binDetected = False, wasteDetected = False,
                confidence = 0, failureReason = reason quality \<rparr>
         else
           (let seed = hashString (photoUri @ '':'' @ qrCodeId);
                conf = 0.6 + real_of_int (seed mod 40) / 100;
                binDet = (conf > 0.62);
                wasteDet = (conf > 0.68);
                failure = (if \<not> binDet then Some ''Dustbin not detected.''
                           else if \<not> wasteDet then Some ''Waste not detected.''
                           else None)
            in \<lparr> qualityPassed = True, binDetected = binDet, wasteDetected = wasteDet,
                 confidence = min conf 0.98, failureReason = failure \<rparr>))"

definition validateCleanupConsistency :: "string \<Rightarrow> string \<Rightarrow> bool" where
  "validateCleanupConsistency beforeUri afterUri = (imageHash beforeUri \<noteq> imageHash afterUri)"

section \<open>Location capture (src/unnamed/part_002, imported as services/locationEngine)\<close>

definition PREFERRED_ACCURACY_METERS :: real where
  "PREFERRED_ACCURACY_METERS = 5"

definition MAX_ALLOWED_ACCURACY_METERS :: real where
  "MAX_ALLOWED_ACCURACY_METERS = 10"

definition MAX_LOCATION_AGE_SECONDS :: real where
  "MAX_LOCATION_AGE_SECONDS = 30"

definition resolveStrength :: "real \<Rightarrow> location_strength" where
  "resolveStrength accuracyMeters =
     (if accuracyMeters \<le> PREFERRED_ACCURACY_METERS then strong
      else if accuracyMeters \<le> MAX_ALLOWED_ACCURACY_METERS then str_medium
      else if accuracyMeters \<le> 40 then weak
      else str_none)"

text \<open>
  The device's answers are the inputs of the model: whether the permission request was
  granted, and the position \<open>getCurrentPositionAsync\<close> resolved to (\<open>None\<close> when it
  threw). A position's accuracy may be \<open>null\<close>, its \<open>mocked\<close> field and its numeric
  timestamp may be missing. A timestamp that is a number need not be a time: it may be
  \<open>NaN\<close> or infinite, or lie outside the range of \<open>Date\<close>.
\<close>

datatype device_number = non_finite | finite_number real

record position_coords =
  pc_latitude :: real
  pc_longitude :: real
  pc_accuracy :: "real option"
  pc_mocked :: "bool option"

record position =
  pos_coords :: position_coords
  pos_timestamp :: "device_number option"

record location_result =
  snapshot :: "location_snapshot option"
  error :: "string option"

definition requestLocationPermission :: "bool \<Rightarrow> bool \<times> string option" where
  "requestLocationPermission statusGranted =
     (if \<not> statusGranted then (False, Some ''Location access is required to continue.'')
      else (True, None))"

text \<open>
  \<open>new Date(v)\<close> clips a number to a time value: none for a number that is not finite
  or beyond 8.64e15 ms in magnitude, the number without its fraction otherwise.
\<close>

definition timeClip :: "device_number \<Rightarrow> timestamp option" where
  "timeClip v =
     (case v of
        non_finite \<Rightarrow> None
      | finite_number x \<Rightarrow>
          (if \<bar>x\<bar> > 8640000000000000 then None
           else Some (if x \<ge> 0 then \<lfloor>x\<rfloor> else \<lceil>x\<rceil>)))"

text \<open>
  The local constant \<open>timestamp\<close>: the position's numeric timestamp as an ISO string, or
  \<open>nowIso()\<close> when the position has none. \<open>toISOString\<close> throws a RangeError on a date
  without a time value; the result is then \<open>None\<close>, and the \<open>catch\<close> of
  \<open>getHighAccuracyLocation\<close> takes over.
\<close>

definition positionTimestamp :: "position \<Rightarrow> timestamp \<Rightarrow> timestamp option" where
  "positionTimestamp pos nowMs =
     (case pos_timestamp pos of Some v \<Rightarrow> timeClip v | None \<Rightarrow> Some nowMs)"

definition getHighAccuracyLocation ::
  "bool \<Rightarrow> position option \<Rightarrow> timestamp \<Rightarrow> location_result" where
  "getHighAccuracyLocation statusGranted fetched nowMs =
     (let permission = requestLocationPermission statusGranted
      in if \<not> fst permission then \<lparr> snapshot = None, error = snd permission \<rparr>
         else
           (case fetched of
              None \<Rightarrow> \<lparr> snapshot = None, error = Some ''Failed to fetch location. Try again.'' \<rparr>
            | Some pos \<Rightarrow>
              (case positionTimestamp pos nowMs of
                 None \<Rightarrow>
                   \<lparr> snapshot = None, error = Some ''Failed to fetch location. Try again.'' \<rparr>
               | Some ts \<Rightarrow>
                (let accuracyMeters =
                       max (case pc_accuracy (pos_coords pos) of Some a \<Rightarrow> a | None \<Rightarrow> 999) 0;
                     age = max (real_of_int (nowMs - ts) / 1000) 0;
                     snap = \<lparr> ls_location = \<lparr> latitude = pc_latitude (pos_coords pos),
                                                longitude = pc_longitude (pos_coords pos) \<rparr>,
                              ls_accuracyMeters = accuracyMeters,
                              ls_timestamp = ts,
                              ageSeconds = age,
                              isMocked = (case pc_mocked (pos_coords pos) of
                                            Some m \<Rightarrow> m | None \<Rightarrow> False),
                              strength = resolveStrength accuracyMeters \<rparr>
                 in if isMocked snap
                    then \<lparr> snapshot = None, error = Some ''Fake GPS detected. Action blocked.'' \<rparr>
                    else if ls_accuracyMeters snap > MAX_ALLOWED_ACCURACY_METERS
                    then \<lparr> snapshot = Some snap,
                           error = Some ''Move to an open area for better GPS accuracy.'' \<rparr>
                    else \<lparr> snapshot = Some snap, error = None \<rparr>))))"

definition isLocationFresh :: "location_snapshot \<Rightarrow> bool" where
  "isLocationFresh snap = (ageSeconds snap \<le> MAX_LOCATION_AGE_SECONDS)"

section \<open>The decision engine (src/unnamed/part_005, the App component)\<close>

subsection \<open>Helpers\<close>

text \<open>\<open>String.prototype.trim\<close> on code units below 256.\<close>

definition isWhiteSpace :: "char \<Rightarrow> bool" where
  "isWhiteSpace c = ((of_char c :: nat) \<in> {9, 10, 11, 12, 13, 32, 160})"

definition trim :: "string \<Rightarrow> string" where
  "trim s = rev (dropWhile isWhiteSpace (rev (dropWhile isWhiteSpace s)))"

text \<open>A number spliced into a template string; only integers occur.\<close>

definition decDigit :: "nat \<Rightarrow> char" where
  "decDigit d = ''0123456789'' ! d"

fun showNat :: "nat \<Rightarrow> string" where
  "showNat n = (if n < 10 then [decDigit n] else showNat (n div 10) @ [decDigit (n mod 10)])"

declare showNat.simps [simp del]

definition showInt :: "int \<Rightarrow> string" where
  "showInt i = (if i < 0 then ''-'' @ showNat (nat (- i)) else showNat (nat i))"

fun wasteSizeName :: "waste_size_class \<Rightarrow> string" where
  "wasteSizeName large = ''large''"
| "wasteSizeName medium = ''medium''"
| "wasteSizeName small = ''small''"
| "wasteSizeName home_daily = ''home_daily''"

text \<open>\<open>Array.prototype.findIndex\<close>; the source's \<open>-1\<close> is \<open>None\<close>.\<close>

fun findIndex :: "('a \<Rightarrow> bool) \<Rightarrow> 'a list \<Rightarrow> nat option" where
  "findIndex P [] = None"
| "findIndex P (x # xs) = (if P x then Some 0 else map_option Suc (findIndex P xs))"

text \<open>\<open>if (cond) fraudFlags.push(flag)\<close>: what one such statement appends.\<close>

definition pushIf :: "bool \<Rightarrow> fraud_alert_type \<Rightarrow> fraud_alert_type list" where
  "pushIf cond flag = (if cond then [flag] else [])"

subsection \<open>Constants and small functions of the component\<close>

definition DEFAULT_STATE :: "timestamp \<Rightarrow> app_state" where
  "DEFAULT_STATE loadedAt =
     \<lparr> isOnline = True,
       bins = MADURAI_BINS loadedAt,
       disposals = [],
       complaints = [],
       wallet = \<lparr> points = 0, history = [] \<rparr>,
       redemptions = [],
       fraudAlerts = [],
       pendingActions = [],
       usedImageHashes = [],
       lastActionByUser = Map.empty,
       syncLog = [] \<rparr>"

fun FRAUD_SEVERITY :: "fraud_alert_type \<Rightarrow> severity" where
  "FRAUD_SEVERITY duplicate_image = sev_high"
| "FRAUD_SEVERITY location_anomaly = sev_high"
| "FRAUD_SEVERITY before_after_mismatch = sev_high"
| "FRAUD_SEVERITY qr_mismatch = sev_medium"
| "FRAUD_SEVERITY geo_fence_failure = sev_high"
| "FRAUD_SEVERITY mock_location_detected = sev_high"
| "FRAUD_SEVERITY cooldown_violation = sev_medium"
| "FRAUD_SEVERITY location_accuracy_failure = sev_medium"
| "FRAUD_SEVERITY timestamp_invalid = sev_medium"

definition addLog :: "host \<Rightarrow> app_state \<Rightarrow> string \<Rightarrow> app_state" where
  "addLog h state message =
     state\<lparr> syncLog := take 40 ((localeTimeString h @ '' - '' @ message) # syncLog state) \<rparr>"

definition toUserSnapshot :: "location_snapshot \<Rightarrow> user_location_snapshot" where
  "toUserSnapshot snap =
     \<lparr> uls_location = ls_location snap,
       uls_accuracyMeters = ls_accuracyMeters snap,
       uls_timestamp = ls_timestamp snap \<rparr>"

definition appendFraudAlerts ::
  "host \<Rightarrow> app_state \<Rightarrow> string \<Rightarrow> fraud_alert_type list \<Rightarrow> (fraud_alert_type \<Rightarrow> string)
   \<Rightarrow> app_state" where
  "appendFraudAlerts h state actionId types messages =
     (if length types = 0 then state
      else
        (let score = fraudRiskScore types;
             alerts = map (\<lambda>type. makeFraudAlert type actionId (messages type)
                                    (FRAUD_SEVERITY type) (dateNow h) score) types
         in state\<lparr> fraudAlerts := alerts @ fraudAlerts state \<rparr>))"

subsection \<open>applyAction\<close>

text \<open>
  \<open>applyAction\<close> is one function with a branch per action type. Each branch is a
  definition of its own here (\<open>applyDispose\<close>, \<open>applyReportIssue\<close>, ...) and
  \<open>applyAction\<close> dispatches on the payload's constructor; the source's final
  \<open>return state\<close> for an unknown tag has no counterpart in the tagged union.
\<close>

fun disposeMessages :: "fraud_alert_type \<Rightarrow> string" where
  "disposeMessages duplicate_image = ''Duplicate image detected.''"
| "disposeMessages location_anomaly = ''Frequent location jump detected.''"
| "disposeMessages before_after_mismatch = ''Before/after mismatch detected.''"
| "disposeMessages qr_mismatch = ''QR does not match selected bin.''"
| "disposeMessages geo_fence_failure = ''Geo-fence validation failed.''"
| "disposeMessages mock_location_detected = ''Fake GPS detected. Action blocked.''"
| "disposeMessages cooldown_violation = ''Bin cooldown policy violated.''"
| "disposeMessages location_accuracy_failure = ''GPS accuracy above allowed threshold.''"
| "disposeMessages timestamp_invalid = ''Location timestamp is too old.''"

definition applyDispose :: "host \<Rightarrow> app_state \<Rightarrow> string \<Rightarrow> dispose_payload \<Rightarrow> app_state" where
  "applyDispose h state actionId payload =
     (case find (\<lambda>item. bin_id item = d_binId payload) (bins state) of
        None \<Rightarrow> addLog h state (''Disposal '' @ actionId @ '' failed: selected bin not found.'')
      | Some b \<Rightarrow>
          (let distance = distanceMeters (ls_location (d_location payload)) (bin_location b);
               qrVer = (trim (d_qrCodeId payload) = bin_qrCodeId b);
               locationAgeTooOld = (ageSeconds (d_location payload) > MAX_LOCATION_AGE_SECONDS);
               lowAccuracy = (ls_accuracyMeters (d_location payload) > MAX_ALLOWED_ACCURACY_METERS);
               geoVer = (distance \<le> 5 \<and> \<not> locationAgeTooOld \<and> \<not> lowAccuracy
                         \<and> \<not> isMocked (d_location payload));
               aiResult = validateDisposalImage (d_photoUri payload) (d_qrCodeId payload);
               aiVer = (qualityPassed aiResult \<and> binDetected aiResult \<and> wasteDetected aiResult);
               imgHash = imageHash (d_photoUri payload);
               duplicate = isDuplicateImage (usedImageHashes state) imgHash;
               locationAnomaly = isLocationAnomaly (lastActionByUser state (d_userId payload))
                                   (ls_location (d_location payload)) (d_createdAt payload);
               cooldownCutoff = dateNow h - DISPOSAL_COOLDOWN_HOURS * 60 * 60 * 1000;
               cooldownViolation =
                 list_ex (\<lambda>item. dr_userId item = d_userId payload
                                  \<and> dr_binId item = d_binId payload
                                  \<and> dr_createdAt item > cooldownCutoff) (disposals state);
               flags = pushIf (\<not> qrVer) qr_mismatch
                       @ pushIf (\<not> geoVer) geo_fence_failure
                       @ pushIf (isMocked (d_location payload)) mock_location_detected
                       @ pushIf duplicate duplicate_image
                       @ pushIf locationAnomaly location_anomaly
                       @ pushIf cooldownViolation cooldown_violation
                       @ pushIf lowAccuracy location_accuracy_failure
                       @ pushIf locationAgeTooOld timestamp_invalid;
               ver = (bin_status b = available \<and> qrVer \<and> geoVer \<and> aiVer \<and> length flags = 0);
               isFirstSuccessful =
                 list_all (\<lambda>item. \<not> (dr_userId item = d_userId payload \<and> verified item))
                   (disposals state);
               basePoints = (if ver then REGULAR_REWARD_POINTS (d_wasteSize payload) else 0);
               bonusPoints = (if ver \<and> isFirstSuccessful then FIRST_TIME_USER_BONUS_POINTS else 0);
               awarded = basePoints + bonusPoints;
               disposal =
                 \<lparr> dr_id = actionId,
                   dr_userId = d_userId payload,
                   dr_binId = d_binId payload,
                   dr_qrCodeId = d_qrCodeId payload,
                   dr_photoUri = d_photoUri payload,
                   dr_imageHash = imgHash,
                   dr_location = ls_location (d_location payload),
                   dr_accuracyMeters = ls_accuracyMeters (d_location payload),
                   dr_createdAt = d_createdAt payload,
                   dr_distanceMeters = distance,
                   geoVerified = geoVer,
                   qrVerified = qrVer,
                   aiVerified = aiVer,
                   dr_wasteSize = d_wasteSize payload,
                   dr_fraudFlags = flags,
                   verified = ver,
                   pointsAwarded = awarded,
                   rejectionReason =
                     (if ver then None
                      else Some (case failureReason aiResult of
                                   Some r \<Rightarrow> r | None \<Rightarrow> ''Validation failed'')) \<rparr>;
               next1 =
                 state\<lparr> disposals := disposal # disposals state,
                        usedImageHashes :=
                          (if duplicate then usedImageHashes state
                           else imgHash # usedImageHashes state),
                        lastActionByUser :=
                          (lastActionByUser state)
                            (d_userId payload \<mapsto> toUserSnapshot (d_location payload)),
                        bins :=
                          map (\<lambda>item. if bin_id item = d_binId payload \<and> ver
                                      then item\<lparr> bin_lastUsedAt := Some (d_createdAt payload) \<rparr>
                                      else item) (bins state) \<rparr>;
               next2 =
                 (if awarded > 0
                  then
                    (let entries =
                           [ \<lparr> we_id = walletId1 h,
                               we_type = earn,
                               we_points = basePoints,
                               we_reason = ''AI verified '' @ wasteSizeName (d_wasteSize payload)
                                           @ '' waste disposal'',
                               we_source = ai_disposal_verified,
                               we_referenceId = Some actionId,
                               we_createdAt = d_createdAt payload \<rparr> ]
                           @ (if bonusPoints > 0
                              then [ \<lparr> we_id = walletId2 h,
                                       we_type = earn,
                                       we_points = bonusPoints,
                                       we_reason = ''First successful disposal bonus'',
                                       we_source = first_time_bonus,
                                       we_referenceId = Some actionId,
                                       we_createdAt = d_createdAt payload \<rparr> ]
                              else [])
                     in next1\<lparr> wallet :=
                                 \<lparr> points = points (wallet next1) + awarded,
                                   history = entries @ history (wallet next1) \<rparr> \<rparr>)
                  else next1);
               next3 = appendFraudAlerts h next2 actionId flags disposeMessages
           in addLog h next3
                (if ver
                 then ''Disposal '' @ actionId @ '' verified. '' @ showInt awarded
                      @ '' points credited.''
                 else ''Disposal '' @ actionId @ '' rejected. ''
                      @ (case rejectionReason disposal of
                           Some r \<Rightarrow> r | None \<Rightarrow> ''Validation failed.''))))"

fun reportMessages :: "fraud_alert_type \<Rightarrow> string" where
  "reportMessages duplicate_image = ''Complaint image is reused.''"
| "reportMessages location_anomaly = ''Complaint submitted from suspicious movement pattern.''"
| "reportMessages before_after_mismatch = ''Before/after mismatch detected.''"
| "reportMessages qr_mismatch = ''QR mismatch detected.''"
| "reportMessages geo_fence_failure = ''Geo-fence failure detected.''"
| "reportMessages mock_location_detected = ''Fake GPS detected in complaint report.''"
| "reportMessages cooldown_violation = ''Action frequency exceeded.''"
| "reportMessages location_accuracy_failure = ''Low GPS accuracy in complaint report.''"
| "reportMessages timestamp_invalid = ''Complaint location timestamp is stale.''"

definition applyReportIssue ::
  "host \<Rightarrow> app_state \<Rightarrow> string \<Rightarrow> report_issue_payload \<Rightarrow> app_state" where
  "applyReportIssue h state actionId payload =
     (let imgHash = imageHash (ri_photoUri payload);
          duplicate = isDuplicateImage (usedImageHashes state) imgHash;
          anomaly = isLocationAnomaly (lastActionByUser state (ri_userId payload))
                      (ls_location (ri_location payload)) (ri_createdAt payload);
          flags = pushIf duplicate duplicate_image
                  @ pushIf anomaly location_anomaly
                  @ pushIf (isMocked (ri_location payload)) mock_location_detected
                  @ pushIf (ls_accuracyMeters (ri_location payload) > MAX_ALLOWED_ACCURACY_METERS)
                      location_accuracy_failure
                  @ pushIf (ageSeconds (ri_location payload) > MAX_LOCATION_AGE_SECONDS)
                      timestamp_invalid;
          cmp = \<lparr> c_id = actionId,
                  c_userId = ri_userId payload,
                  c_category = ri_category payload,
                  c_description = ri_description payload,
                  c_photoUri = ri_photoUri payload,
                  c_imageHash = imgHash,
                  c_location = ls_location (ri_location payload),
                  c_createdAt = ri_createdAt payload,
                  c_status = c_open,
                  reportFraudFlags = flags,
                  cleanupProof = None,
                  resolvedAt = None,
                  c_verification = None \<rparr>;
          next1 =
            state\<lparr> complaints := cmp # complaints state,
                   usedImageHashes :=
                     (if duplicate then usedImageHashes state
                      else imgHash # usedImageHashes state),
                   lastActionByUser :=
                     (lastActionByUser state)
                       (ri_userId payload \<mapsto> toUserSnapshot (ri_location payload)) \<rparr>;
          next2 = appendFraudAlerts h next1 actionId flags reportMessages
      in addLog h next2 (''Complaint '' @ actionId @ '' submitted with geo-tag evidence.''))"

definition applyReportBinFull ::
  "host \<Rightarrow> app_state \<Rightarrow> string \<Rightarrow> report_bin_full_payload \<Rightarrow> app_state" where
  "applyReportBinFull h state actionId payload =
     (let next1 =
            state\<lparr> bins :=
                     map (\<lambda>item. if bin_id item = bf_binId payload
                                 then item\<lparr> bin_status := reported_full \<rparr>
                                 else item) (bins state) \<rparr>
      in addLog h next1 (''Bin '' @ bf_binId payload @ '' marked as reported full.''))"

fun cleanupMessages :: "fraud_alert_type \<Rightarrow> string" where
  "cleanupMessages duplicate_image = ''Cleanup image is reused.''"
| "cleanupMessages location_anomaly = ''Cleanup location anomaly detected.''"
| "cleanupMessages before_after_mismatch = ''Cleanup proof appears identical to complaint image.''"
| "cleanupMessages qr_mismatch = ''QR mismatch detected.''"
| "cleanupMessages geo_fence_failure = ''Cleanup proof submitted outside complaint perimeter.''"
| "cleanupMessages mock_location_detected = ''Fake GPS detected in cleanup proof.''"
| "cleanupMessages cooldown_violation = ''Action frequency exceeded.''"
| "cleanupMessages location_accuracy_failure = ''Low GPS accuracy in cleanup proof.''"
| "cleanupMessages timestamp_invalid = ''Cleanup location timestamp is stale.''"

definition applySubmitCleanup ::
  "host \<Rightarrow> app_state \<Rightarrow> string \<Rightarrow> submit_cleanup_payload \<Rightarrow> app_state" where
  "applySubmitCleanup h state actionId payload =
     (case findIndex (\<lambda>item. c_id item = sc_complaintId payload) (complaints state) of
        None \<Rightarrow> addLog h state (''Cleanup '' @ actionId @ '' failed. Complaint not found.'')
      | Some complaintIndex \<Rightarrow>
          (let cmp = complaints state ! complaintIndex;
               distance = distanceMeters (ls_location (sc_location payload)) (c_location cmp);
               geoOk = (distance \<le> 10
                        \<and> ls_accuracyMeters (sc_location payload) \<le> MAX_ALLOWED_ACCURACY_METERS
                        \<and> ageSeconds (sc_location payload) \<le> MAX_LOCATION_AGE_SECONDS
                        \<and> \<not> isMocked (sc_location payload));
               imgHash = imageHash (sc_photoUri payload);
               duplicate = isDuplicateImage (usedImageHashes state) imgHash;
               beforeAfterMismatch =
                 (\<not> validateCleanupConsistency (c_photoUri cmp) (sc_photoUri payload));
               flags = pushIf (\<not> geoOk) geo_fence_failure
                       @ pushIf duplicate duplicate_image
                       @ pushIf beforeAfterMismatch before_after_mismatch
                       @ pushIf (isMocked (sc_location payload)) mock_location_detected
                       @ pushIf (ls_accuracyMeters (sc_location payload)
                                   > MAX_ALLOWED_ACCURACY_METERS) location_accuracy_failure
                       @ pushIf (ageSeconds (sc_location payload) > MAX_LOCATION_AGE_SECONDS)
                           timestamp_invalid;
               proof =
                 \<lparr> cp_id = actionId,
                   cp_submittedBy = sc_userId payload,
                   cp_photoUri = sc_photoUri payload,
                   cp_imageHash = imgHash,
                   cp_location = ls_location (sc_location payload),
                   cp_accuracyMeters = ls_accuracyMeters (sc_location payload),
                   cp_createdAt = sc_createdAt payload,
                   cp_watermark =
                     isoString h (sc_createdAt payload) @ '' @ ''
                     @ toFixed5 h (latitude (ls_location (sc_location payload))) @ '', ''
                     @ toFixed5 h (longitude (ls_location (sc_location payload)))
                     @ '' | complaint:'' @ sc_complaintId payload,
                   cp_distanceFromComplaintMeters = distance,
                   aiCleanVerified = (\<not> beforeAfterMismatch),
                   cp_fraudFlags = flags \<rparr>;
               updated =
                 (complaints state)
                   [complaintIndex :=
                      cmp\<lparr> c_status := (if geoOk then c_in_progress else c_status cmp),
                           cleanupProof := Some proof \<rparr>];
               next1 =
                 state\<lparr> complaints := updated,
                        usedImageHashes :=
                          (if duplicate then usedImageHashes state
                           else imgHash # usedImageHashes state),
                        lastActionByUser :=
                          (lastActionByUser state)
                            (sc_userId payload \<mapsto> toUserSnapshot (sc_location payload)) \<rparr>;
               next2 = appendFraudAlerts h next1 actionId flags cleanupMessages
           in addLog h next2
                (if geoOk
                 then ''Cleanup proof submitted for '' @ sc_complaintId payload @ ''.''
                 else ''Cleanup proof rejected for '' @ sc_complaintId payload @ ''.'')))"

definition applyVerifyCleanup ::
  "host \<Rightarrow> app_state \<Rightarrow> string \<Rightarrow> verify_cleanup_payload \<Rightarrow> app_state" where
  "applyVerifyCleanup h state actionId payload =
     (case findIndex (\<lambda>item. c_id item = vc_complaintId payload) (complaints state) of
        None \<Rightarrow> addLog h state (''Verification '' @ actionId @ '' failed. Complaint not found.'')
      | Some complaintIndex \<Rightarrow>
          (let cmp = complaints state ! complaintIndex;
               nextComplaints =
                 (complaints state)
                   [complaintIndex :=
                      cmp\<lparr> c_status := (if vc_accepted payload then c_resolved else c_open),
                           resolvedAt :=
                             (if vc_accepted payload then Some (vc_createdAt payload) else None),
                           c_verification :=
                             Some \<lparr> v_verifiedBy = vc_verifiedBy payload,
                                    v_accepted = vc_accepted payload,
                                    v_notes = vc_notes payload,
                                    v_verifiedAt = vc_createdAt payload \<rparr> \<rparr>]
           in addLog h (state\<lparr> complaints := nextComplaints \<rparr>)
                (if vc_accepted payload
                 then ''Complaint '' @ vc_complaintId payload @ '' resolved.''
                 else ''Complaint '' @ vc_complaintId payload @ '' reopened.'')))"

definition applyRedeemReward ::
  "host \<Rightarrow> app_state \<Rightarrow> string \<Rightarrow> redeem_reward_payload \<Rightarrow> app_state" where
  "applyRedeemReward h state actionId payload =
     (if points (wallet state) < rd_pointsRequired payload
      then addLog h state ''Redemption blocked: insufficient points.''
      else
        (let expiresAt = dateNow h + 14 * 24 * 60 * 60 * 1000;
             redemption =
               \<lparr> rr_id = actionId,
                 rr_rewardId = rd_rewardId payload,
                 rr_rewardTitle = rd_rewardTitle payload,
                 rr_couponCode = couponCode h,
                 rr_pointsUsed = rd_pointsRequired payload,
                 rr_createdAt = rd_createdAt payload,
                 rr_expiresAt = expiresAt,
                 rr_status = active \<rparr>;
             walletEntry =
               \<lparr> we_id = walletId1 h,
                 we_type = redeem,
                 we_points = rd_pointsRequired payload,
                 we_reason = ''Redeemed '' @ rd_rewardTitle payload,
                 we_source = coupon_redemption,
                 we_referenceId = Some actionId,
                 we_createdAt = rd_createdAt payload \<rparr>
         in addLog h
              (state\<lparr> redemptions := redemption # redemptions state,
                      wallet :=
                        \<lparr> points = points (wallet state) - rd_pointsRequired payload,
                          history = walletEntry # history (wallet state) \<rparr> \<rparr>)
              (''Redeemed '' @ rd_rewardTitle payload @ ''. Coupon generated.'')))"

definition applyAction :: "host \<Rightarrow> app_state \<Rightarrow> pending_action \<Rightarrow> app_state" where
  "applyAction h state action =
     (case pa_payload action of
        Dispose payload \<Rightarrow> applyDispose h state (pa_id action) payload
      | Report_issue payload \<Rightarrow> applyReportIssue h state (pa_id action) payload
      | Report_bin_full payload \<Rightarrow> applyReportBinFull h state (pa_id action) payload
      | Submit_cleanup payload \<Rightarrow> applySubmitCleanup h state (pa_id action) payload
      | Verify_cleanup payload \<Rightarrow> applyVerifyCleanup h state (pa_id action) payload
      | Redeem_reward payload \<Rightarrow> applyRedeemReward h state (pa_id action) payload)"

subsection \<open>The sync step after an action\<close>






text \<open>
  The states the application reaches from \<open>DEFAULT_STATE\<close>: each step applies one
  action, with whatever the host returns at that moment.
\<close>

inductive reachable :: "timestamp \<Rightarrow> app_state \<Rightarrow> bool" for loadedAt :: timestamp where
  reachable_init: "reachable loadedAt (DEFAULT_STATE loadedAt)"
| reachable_step: "reachable loadedAt state \<Longrightarrow> reachable loadedAt (applyAction h state action)"

text \<open>
  The balance a ledger stands for: the points of its earn entries minus the points of
  its redeem entries.
\<close>

definition ledgerBalance :: "wallet_entry list \<Rightarrow> int" where
  "ledgerBalance entries =
     sum_list (map we_points (filter (\<lambda>entry. we_type entry = earn) entries))
     - sum_list (map we_points (filter (\<lambda>entry. we_type entry = redeem) entries))"

section \<open>Concrete inputs\<close>

text \<open>
  A host whose clock reads \<open>t\<close>, a location fix taken at bin \<open>bin-001\<close>, and disposal
  actions built from them. The renderings of the host are not used by the actions below.
\<close>

definition hostAt :: "timestamp \<Rightarrow> host" where
  "hostAt t =
     \<lparr> dateNow = t, localeTimeString = ''10:00:00'', walletId1 = ''wallet-a'',
       walletId2 = ''wallet-b'', couponCode = ''CLEANMADURAI-AB12-CD34'',
       isoString = (\<lambda>x. []), toFixed5 = (\<lambda>x. []) \<rparr>"

definition fixAtBin1 :: "bool \<Rightarrow> location_snapshot" where
  "fixAtBin1 mocked =
     \<lparr> ls_location = \<lparr> latitude = 9.9166, longitude = 78.1194 \<rparr>,
       ls_accuracyMeters = 2, ls_timestamp = 0, ageSeconds = 1, isMocked = mocked,
       strength = strong \<rparr>"

definition disposePayload :: "string \<Rightarrow> string \<Rightarrow> bool \<Rightarrow> timestamp \<Rightarrow> dispose_payload" where
  "disposePayload binId qr mocked t =
     \<lparr> d_binId = binId, d_qrCodeId = qr,
       d_photoUri = ''file:///cam/IMG_0001.jpg'', d_wasteSize = large,
       d_location = fixAtBin1 mocked, d_userId = ''demo-user-001'', d_createdAt = t \<rparr>"

definition disposeAction :: "string \<Rightarrow> string \<Rightarrow> string \<Rightarrow> bool \<Rightarrow> timestamp \<Rightarrow> pending_action" where
  "disposeAction actionId binId qr mocked t =
     \<lparr> pa_id = actionId, pa_payload = Dispose (disposePayload binId qr mocked t),
       pa_createdAt = t \<rparr>"

text \<open>The state after one verified disposal at \<open>bin-001\<close>, created and applied at time 1000.\<close>

definition stateAfterFirstDisposal :: app_state where
  "stateAfterFirstDisposal =
     applyAction (hostAt 1000) (DEFAULT_STATE 0)
       (disposeAction ''dispose-1'' ''bin-001'' ''MMC-BIN-001'' False 1000)"

text \<open>Redeeming the 50-point reward of the catalogue.\<close>

definition redeemPayload :: "timestamp \<Rightarrow> redeem_reward_payload" where
  "redeemPayload t =
     \<lparr> rd_rewardId = ''MOBILE_RECHARGE_25'', rd_rewardTitle = ''INR25 Mobile Recharge Coupon'',
       rd_pointsRequired = 50, rd_createdAt = t \<rparr>"

definition redeemAction :: "timestamp \<Rightarrow> pending_action" where
  "redeemAction t =
     \<lparr> pa_id = ''redeem-1'', pa_payload = Redeem_reward (redeemPayload t), pa_createdAt = t \<rparr>"

text \<open>A complaint reported at time 3000, and a cleanup proof for it.\<close>

definition reportPayload :: "timestamp \<Rightarrow> report_issue_payload" where
  "reportPayload t =
     \<lparr> ri_category = roadside_dumping, ri_description = ''Garbage near the bus stand'',
       ri_photoUri = ''file:///cam/IMG_0002.jpg'', ri_location = fixAtBin1 False,
       ri_userId = ''demo-user-001'', ri_createdAt = t \<rparr>"

definition reportAction :: "timestamp \<Rightarrow> pending_action" where
  "reportAction t =
     \<lparr> pa_id = ''complaint-1'', pa_payload = Report_issue (reportPayload t), pa_createdAt = t \<rparr>"

definition cleanupPayload :: "timestamp \<Rightarrow> submit_cleanup_payload" where
  "cleanupPayload t =
     \<lparr> sc_complaintId = ''complaint-1'', sc_photoUri = ''file:///cam/IMG_0003.jpg'',
       sc_location = fixAtBin1 False, sc_userId = ''demo-worker-001'', sc_createdAt = t \<rparr>"

definition cleanupAction :: "timestamp \<Rightarrow> pending_action" where
  "cleanupAction t =
     \<lparr> pa_id = ''cleanup-1'', pa_payload = Submit_cleanup (cleanupPayload t), pa_createdAt = t \<rparr>"

definition stateAfterReport :: app_state where
  "stateAfterReport = applyAction (hostAt 3000) (DEFAULT_STATE 0) (reportAction 3000)"

text \<open>A position reported by the device at bin \<open>bin-001\<close>.\<close>

definition positionAt :: "real \<Rightarrow> bool \<Rightarrow> timestamp \<Rightarrow> position" where
  "positionAt accuracy mocked t =
     \<lparr> pos_coords = \<lparr> pc_latitude = 9.9166, pc_longitude = 78.1194,
                      pc_accuracy = Some accuracy, pc_mocked = Some mocked \<rparr>,
       pos_timestamp = Some (finite_number (real_of_int t)) \<rparr>"

text \<open>Bin \<open>bin-001\<close> reported full in the initial state.\<close>

definition binFullAction :: pending_action where
  "binFullAction =
     \<lparr> pa_id = ''binfull-1'',
       pa_payload = Report_bin_full
         \<lparr> bf_binId = ''bin-001'', bf_reason = ''User reported full bin from disposal flow.'' \<rparr>,
       pa_createdAt = 500 \<rparr>"

definition stateBinFull :: app_state where
  "stateBinFull = applyAction (hostAt 500) (DEFAULT_STATE 0) binFullAction"

text \<open>The same position with a numeric timestamp that is not a time (\<open>NaN\<close>).\<close>

definition positionWithoutTime :: "bool \<Rightarrow> position" where
  "positionWithoutTime mocked = (positionAt 5 mocked 0)\<lparr> pos_timestamp := Some non_finite \<rparr>"




section \<open>Basic facts\<close>

lemma foldl_score:
  "foldl (\<lambda>sum item. sum + TYPE_SCORE item) acc types = acc + sum_list (map TYPE_SCORE types)"
  by (induction types arbitrary: acc) simp_all

lemma fraudRiskScore_sum: "fraudRiskScore types = sum_list (map TYPE_SCORE types)"
  by (simp add: fraudRiskScore_def foldl_score)

lemma addLog_fields [simp]:
  "isOnline (addLog h s m) = isOnline s"
  "bins (addLog h s m) = bins s"
  "disposals (addLog h s m) = disposals s"
  "complaints (addLog h s m) = complaints s"
  "wallet (addLog h s m) = wallet s"
  "redemptions (addLog h s m) = redemptions s"
  "fraudAlerts (addLog h s m) = fraudAlerts s"
  "pendingActions (addLog h s m) = pendingActions s"
  "usedImageHashes (addLog h s m) = usedImageHashes s"
  "lastActionByUser (addLog h s m) = lastActionByUser s"
  by (simp_all add: addLog_def)

lemma appendFraudAlerts_fields [simp]:
  "isOnline (appendFraudAlerts h s a ts ms) = isOnline s"
  "bins (appendFraudAlerts h s a ts ms) = bins s"
  "disposals (appendFraudAlerts h s a ts ms) = disposals s"
  "complaints (appendFraudAlerts h s a ts ms) = complaints s"
  "wallet (appendFraudAlerts h s a ts ms) = wallet s"
  "redemptions (appendFraudAlerts h s a ts ms) = redemptions s"
  "pendingActions (appendFraudAlerts h s a ts ms) = pendingActions s"
  "usedImageHashes (appendFraudAlerts h s a ts ms) = usedImageHashes s"
  "lastActionByUser (appendFraudAlerts h s a ts ms) = lastActionByUser s"
  "syncLog (appendFraudAlerts h s a ts ms) = syncLog s"
  by (simp_all add: appendFraudAlerts_def Let_def)

lemma set_pushIf [simp]: "set (pushIf c f) = (if c then {f} else {})"
  by (simp add: pushIf_def)

lemma pushIf_eq_Nil [simp]: "(pushIf c f = []) = (\<not> c)"
  by (simp add: pushIf_def)

text \<open>Two readings at the same coordinates are 0 m apart.\<close>

lemma distanceMeters_same [simp]: "distanceMeters a a = 0"
  by (simp add: distanceMeters_def toRadians_def atan2_def Let_def)

subsection \<open>The concrete inputs, evaluated\<close>

lemma example_seed: "hashString ''file:///cam/IMG_0001.jpg:MMC-BIN-001'' mod 40 = 16"
  by (simp add: hashString_def toInt32_def)

lemma example_quality: "qualityCheck ''file:///cam/IMG_0001.jpg'' = \<lparr> ok = True, reason = None \<rparr>"
  by (simp add: qualityCheck_def toLowerCase_def toLowerCaseChar_def Let_def)

lemma example_validation:
  "validateDisposalImage ''file:///cam/IMG_0001.jpg'' ''MMC-BIN-001''
     = \<lparr> qualityPassed = True, binDetected = True, wasteDetected = True,
         confidence = 0.76, failureReason = None \<rparr>"
  using example_seed by (simp add: validateDisposalImage_def example_quality Let_def)

lemma example_trim: "trim ''MMC-BIN-001'' = ''MMC-BIN-001''"
  by (simp add: trim_def isWhiteSpace_def)

lemma example_find_bin1:
  "find (\<lambda>item. bin_id item = ''bin-001'') (bins (DEFAULT_STATE 0)) = Some (hd (MADURAI_BINS 0))"
  by (simp add: DEFAULT_STATE_def MADURAI_BINS_def)

lemma full_bin_find:
  "find (\<lambda>item. bin_id item = ''bin-001'') (bins stateBinFull)
     = Some ((hd (MADURAI_BINS 0))\<lparr> bin_status := reported_full \<rparr>)"
  by (simp add: stateBinFull_def applyAction_def applyReportBinFull_def binFullAction_def
      DEFAULT_STATE_def MADURAI_BINS_def)

lemma full_bin_disposals: "disposals stateBinFull = []"
  by (simp add: stateBinFull_def applyAction_def applyReportBinFull_def binFullAction_def
      DEFAULT_STATE_def)

lemma full_bin_state:
  "usedImageHashes stateBinFull = []" "lastActionByUser stateBinFull = Map.empty"
  by (simp_all add: stateBinFull_def applyAction_def applyReportBinFull_def binFullAction_def
      DEFAULT_STATE_def)

text \<open>
  In a state without disposals, used hashes or earlier locations, whose bin \<open>bin-001\<close>
  is where the seed data puts it, the example disposal passes every check but the bin's
  status, which is left to the state.
\<close>

lemma checks_pass_at_bin1:
  assumes "find (\<lambda>item. bin_id item = ''bin-001'') (bins state) = Some b"
      and "bin_qrCodeId b = ''MMC-BIN-001''"
      and "bin_location b = \<lparr> latitude = 9.9166, longitude = 78.1194 \<rparr>"
      and "disposals state = []" and "usedImageHashes state = []"
      and "lastActionByUser state = Map.empty"
  shows "\<exists>r. disposals (applyAction (hostAt 1000) state
               (disposeAction ''dispose-1'' ''bin-001'' ''MMC-BIN-001'' False 1000)) = [r]
          \<and> qrVerified r \<and> geoVerified r \<and> aiVerified r \<and> dr_fraudFlags r = []"
  using assms
  by (simp add: applyAction_def applyDispose_def Let_def disposeAction_def disposePayload_def
      fixAtBin1_def example_validation example_trim MAX_LOCATION_AGE_SECONDS_def
      MAX_ALLOWED_ACCURACY_METERS_def isDuplicateImage_def isLocationAnomaly_def
      if_distrib[of disposals])

subsection \<open>The state after the first disposal, evaluated\<close>

lemma first_disposal_record:
  "\<exists>r. disposals stateAfterFirstDisposal = [r]
        \<and> dr_id r = ''dispose-1'' \<and> dr_userId r = ''demo-user-001'' \<and> dr_binId r = ''bin-001''
        \<and> dr_createdAt r = 1000 \<and> dr_fraudFlags r = [] \<and> verified r \<and> pointsAwarded r = 70"
  by (simp add: stateAfterFirstDisposal_def applyAction_def applyDispose_def Let_def
      disposeAction_def disposePayload_def DEFAULT_STATE_def MADURAI_BINS_def fixAtBin1_def
      example_validation example_trim hostAt_def MAX_LOCATION_AGE_SECONDS_def
      MAX_ALLOWED_ACCURACY_METERS_def isDuplicateImage_def isLocationAnomaly_def
      FIRST_TIME_USER_BONUS_POINTS_def DISPOSAL_COOLDOWN_HOURS_def)

lemma first_disposal_wallet:
  "points (wallet stateAfterFirstDisposal) = 70
   \<and> map (\<lambda>entry. (we_type entry, we_points entry)) (history (wallet stateAfterFirstDisposal))
       = [(earn, 20), (earn, 50)]"
  by (simp add: stateAfterFirstDisposal_def applyAction_def applyDispose_def Let_def
      disposeAction_def disposePayload_def DEFAULT_STATE_def MADURAI_BINS_def fixAtBin1_def
      example_validation example_trim hostAt_def MAX_LOCATION_AGE_SECONDS_def
      MAX_ALLOWED_ACCURACY_METERS_def isDuplicateImage_def isLocationAnomaly_def
      FIRST_TIME_USER_BONUS_POINTS_def DISPOSAL_COOLDOWN_HOURS_def)

lemma first_disposal_bins:
  "find (\<lambda>item. bin_id item = ''bin-001'') (bins stateAfterFirstDisposal)
     = Some ((hd (MADURAI_BINS 0))\<lparr> bin_lastUsedAt := Some 1000 \<rparr>)"
  by (simp add: stateAfterFirstDisposal_def applyAction_def applyDispose_def Let_def
      disposeAction_def disposePayload_def DEFAULT_STATE_def MADURAI_BINS_def fixAtBin1_def
      example_validation example_trim hostAt_def MAX_LOCATION_AGE_SECONDS_def
      MAX_ALLOWED_ACCURACY_METERS_def isDuplicateImage_def isLocationAnomaly_def
      FIRST_TIME_USER_BONUS_POINTS_def DISPOSAL_COOLDOWN_HOURS_def)

lemma applyDispose_redemptions: "redemptions (applyDispose h s a p) = redemptions s"
  by (simp add: applyDispose_def Let_def if_distrib[of redemptions] split: option.split)

lemma first_disposal_redemptions: "redemptions stateAfterFirstDisposal = []"
  by (simp add: stateAfterFirstDisposal_def applyAction_def applyDispose_redemptions
      disposeAction_def DEFAULT_STATE_def)

section \<open>Risk score and alert status\<close>

text \<open>
  Claim C3. The risk score of the empty flag list is 0; the risk score of any list of
  flag kinds is the sum of the fixed weights of its members (duplicate_image 40,
  location_anomaly 50, before_after_mismatch 45, qr_mismatch 20, geo_fence_failure 50,
  mock_location_detected 50, cooldown_violation 30, location_accuracy_failure 20,
  timestamp_invalid 20), with no cap at 100 (three flags of weight 50 score 150); and
  an alert built with risk score \<open>s\<close> is blocked exactly when \<open>s \<ge> 80\<close> and open
  exactly when \<open>s < 80\<close>.
\<close>

theorem risk_score_is_weight_sum:
  "fraudRiskScore [] = 0
   \<and> fraudRiskScore types = sum_list (map TYPE_SCORE types)
   \<and> TYPE_SCORE duplicate_image = 40 \<and> TYPE_SCORE location_anomaly = 50
   \<and> TYPE_SCORE before_after_mismatch = 45 \<and> TYPE_SCORE qr_mismatch = 20
   \<and> TYPE_SCORE geo_fence_failure = 50 \<and> TYPE_SCORE mock_location_detected = 50
   \<and> TYPE_SCORE cooldown_violation = 30 \<and> TYPE_SCORE location_accuracy_failure = 20
   \<and> TYPE_SCORE timestamp_invalid = 20
   \<and> fraudRiskScore [geo_fence_failure, mock_location_detected, location_anomaly] = 150
   \<and> (fa_status (makeFraudAlert type actionId message sev createdAt s) = alert_blocked) = (s \<ge> 80)
   \<and> (fa_status (makeFraudAlert type actionId message sev createdAt s) = alert_open) = (s < 80)"
  by (simp add: fraudRiskScore_sum makeFraudAlert_def)

text \<open>An instance: two flags of weight 40 and 45 score 85, and the alert is blocked.\<close>

theorem risk_score_is_weight_sum_witness:
  "fraudRiskScore [duplicate_image, before_after_mismatch] = 85
   \<and> fa_status (makeFraudAlert duplicate_image ''a1'' ''Duplicate image detected.'' sev_high 0
        (fraudRiskScore [duplicate_image, before_after_mismatch])) = alert_blocked"
  using risk_score_is_weight_sum
    [of "[duplicate_image, before_after_mismatch]" duplicate_image "''a1''"
        "''Duplicate image detected.''" sev_high 0
        "fraudRiskScore [duplicate_image, before_after_mismatch]"]
  by (simp add: fraudRiskScore_sum)

section \<open>Disposal: the verified flag\<close>

text \<open>
  Claim C1. For every dispose action whose bin id resolves to an existing bin, a
  DisposalRecord is created at the head of the disposal list, and its verified flag is
  true if and only if the bin's status is available and the record's qrVerified,
  geoVerified and aiVerified flags are set and its fraudFlags list is empty. In
  particular a disposal at a bin whose status is reported_full is never verified.
\<close>

theorem dispose_verified_iff:
  assumes "pa_payload action = Dispose payload"
      and "find (\<lambda>item. bin_id item = d_binId payload) (bins state) = Some b"
  shows "\<exists>r. disposals (applyAction h state action) = r # disposals state
          \<and> dr_id r = pa_id action
          \<and> (verified r \<longleftrightarrow>
                bin_status b = available \<and> qrVerified r \<and> geoVerified r \<and> aiVerified r
                \<and> dr_fraudFlags r = [])
          \<and> (bin_status b = reported_full \<longrightarrow> \<not> verified r)"
  using assms
  by (simp add: applyAction_def applyDispose_def Let_def if_distrib[of disposals])

text \<open>
  Two inputs. A disposal at \<open>bin-001\<close> in the initial state, with the right QR code,
  a fix at the bin and a fresh photo, is verified. The same disposal after the bin was
  reported full passes the QR, geo and image checks and raises no flag, and is not
  verified.
\<close>

theorem dispose_verified_iff_witness:
  "pa_payload (disposeAction ''dispose-1'' ''bin-001'' ''MMC-BIN-001'' False 1000)
     = Dispose (disposePayload ''bin-001'' ''MMC-BIN-001'' False 1000)
   \<and> find (\<lambda>item. bin_id item = d_binId (disposePayload ''bin-001'' ''MMC-BIN-001'' False 1000))
        (bins (DEFAULT_STATE 0)) = Some (hd (MADURAI_BINS 0))
   \<and> bin_status (hd (MADURAI_BINS 0)) = available
   \<and> (\<exists>r. disposals (applyAction (hostAt 1000) (DEFAULT_STATE 0)
               (disposeAction ''dispose-1'' ''bin-001'' ''MMC-BIN-001'' False 1000)) = [r]
          \<and> qrVerified r \<and> geoVerified r \<and> aiVerified r \<and> dr_fraudFlags r = []
          \<and> verified r)
   \<and> find (\<lambda>item. bin_id item = d_binId (disposePayload ''bin-001'' ''MMC-BIN-001'' False 1000))
        (bins stateBinFull) = Some ((hd (MADURAI_BINS 0))\<lparr> bin_status := reported_full \<rparr>)
   \<and> (\<exists>r. disposals (applyAction (hostAt 1000) stateBinFull
               (disposeAction ''dispose-1'' ''bin-001'' ''MMC-BIN-001'' False 1000)) = [r]
          \<and> qrVerified r \<and> geoVerified r \<and> aiVerified r \<and> dr_fraudFlags r = []
          \<and> \<not> verified r)"
proof -
  have a: "pa_payload (disposeAction ''dispose-1'' ''bin-001'' ''MMC-BIN-001'' False 1000)
             = Dispose (disposePayload ''bin-001'' ''MMC-BIN-001'' False 1000)"
    by (simp add: disposeAction_def)
  have b: "find (\<lambda>item. bin_id item = d_binId (disposePayload ''bin-001'' ''MMC-BIN-001'' False 1000))
             (bins (DEFAULT_STATE 0)) = Some (hd (MADURAI_BINS 0))"
    by (simp add: disposePayload_def example_find_bin1)
  have c: "find (\<lambda>item. bin_id item = d_binId (disposePayload ''bin-001'' ''MMC-BIN-001'' False 1000))
             (bins stateBinFull) = Some ((hd (MADURAI_BINS 0))\<lparr> bin_status := reported_full \<rparr>)"
    by (simp add: disposePayload_def full_bin_find)
  have s: "bin_status (hd (MADURAI_BINS 0)) = available"
    by (simp add: MADURAI_BINS_def)
  have k1: "\<exists>r. disposals (applyAction (hostAt 1000) (DEFAULT_STATE 0)
               (disposeAction ''dispose-1'' ''bin-001'' ''MMC-BIN-001'' False 1000)) = [r]
          \<and> qrVerified r \<and> geoVerified r \<and> aiVerified r \<and> dr_fraudFlags r = []"
    by (rule checks_pass_at_bin1 [where b = "hd (MADURAI_BINS 0)"])
       (simp_all add: DEFAULT_STATE_def MADURAI_BINS_def)
  then obtain r1 where r1:
      "disposals (applyAction (hostAt 1000) (DEFAULT_STATE 0)
         (disposeAction ''dispose-1'' ''bin-001'' ''MMC-BIN-001'' False 1000)) = [r1]"
      "qrVerified r1" "geoVerified r1" "aiVerified r1" "dr_fraudFlags r1 = []"
    by blast
  from dispose_verified_iff [OF a b, of "hostAt 1000"] r1 s
  have v1: "verified r1" by auto
  have k2: "\<exists>r. disposals (applyAction (hostAt 1000) stateBinFull
               (disposeAction ''dispose-1'' ''bin-001'' ''MMC-BIN-001'' False 1000)) = [r]
          \<and> qrVerified r \<and> geoVerified r \<and> aiVerified r \<and> dr_fraudFlags r = []"
    by (rule checks_pass_at_bin1
          [where b = "(hd (MADURAI_BINS 0))\<lparr> bin_status := reported_full \<rparr>"])
       (simp_all add: full_bin_find full_bin_disposals full_bin_state MADURAI_BINS_def)
  then obtain r2 where r2:
      "disposals (applyAction (hostAt 1000) stateBinFull
         (disposeAction ''dispose-1'' ''bin-001'' ''MMC-BIN-001'' False 1000)) = [r2]"
      "qrVerified r2" "geoVerified r2" "aiVerified r2" "dr_fraudFlags r2 = []"
    by blast
  from dispose_verified_iff [OF a c, of "hostAt 1000"] r2
  have v2: "\<not> verified r2" by auto
  from a b c s r1 v1 r2 v2 show ?thesis by blast
qed

section \<open>Disposal: reward points\<close>

text \<open>
  Claim C2. For every dispose action that creates a DisposalRecord: if the record is
  verified, pointsAwarded is REGULAR_REWARD_POINTS of the waste size (large 20, medium
  10, small 3, home_daily 0) plus a bonus of 50 exactly when the state holds no earlier
  verified disposal of the same user; if the record is not verified, pointsAwarded is
  0. When the record is verified and the bonus applies, two separate earn entries are
  put in front of the wallet history: one with the base points, one with the 50 bonus
  points.
\<close>

theorem dispose_points_awarded:
  assumes "pa_payload action = Dispose payload"
      and "find (\<lambda>item. bin_id item = d_binId payload) (bins state) = Some b"
  shows "\<exists>r. disposals (applyAction h state action) = r # disposals state
          \<and> pointsAwarded r =
              (if verified r
               then REGULAR_REWARD_POINTS (d_wasteSize payload)
                    + (if \<exists>item \<in> set (disposals state).
                             dr_userId item = d_userId payload \<and> verified item
                       then 0 else 50)
               else 0)
          \<and> (verified r
               \<and> \<not> (\<exists>item \<in> set (disposals state).
                        dr_userId item = d_userId payload \<and> verified item)
               \<longrightarrow> (\<exists>e1 e2. history (wallet (applyAction h state action))
                              = e1 # e2 # history (wallet state)
                     \<and> we_type e1 = earn
                     \<and> we_points e1 = REGULAR_REWARD_POINTS (d_wasteSize payload)
                     \<and> we_type e2 = earn \<and> we_points e2 = 50))
          \<and> REGULAR_REWARD_POINTS large = 20 \<and> REGULAR_REWARD_POINTS medium = 10
          \<and> REGULAR_REWARD_POINTS small = 3 \<and> REGULAR_REWARD_POINTS home_daily = 0"
  using assms
  apply (simp add: applyAction_def applyDispose_def Let_def if_distrib[of disposals]
      if_distrib[of wallet] list_all_iff FIRST_TIME_USER_BONUS_POINTS_def)
  apply (cases "d_wasteSize payload")
     apply auto
  done

text \<open>
  At the initial state no earlier disposal exists: the verified large disposal at
  \<open>bin-001\<close> is awarded 20 + 50 = 70 points, and the wallet history gets two entries.
\<close>

theorem dispose_points_awarded_witness:
  "pa_payload (disposeAction ''dispose-1'' ''bin-001'' ''MMC-BIN-001'' False 1000)
     = Dispose (disposePayload ''bin-001'' ''MMC-BIN-001'' False 1000)
   \<and> find (\<lambda>item. bin_id item = d_binId (disposePayload ''bin-001'' ''MMC-BIN-001'' False 1000))
        (bins (DEFAULT_STATE 0)) = Some (hd (MADURAI_BINS 0))
   \<and> (\<exists>r. disposals stateAfterFirstDisposal = [r] \<and> verified r \<and> pointsAwarded r = 70)
   \<and> (\<exists>e1 e2. history (wallet stateAfterFirstDisposal) = [e1, e2]
          \<and> we_type e1 = earn \<and> we_points e1 = 20 \<and> we_type e2 = earn \<and> we_points e2 = 50)"
proof -
  have a: "pa_payload (disposeAction ''dispose-1'' ''bin-001'' ''MMC-BIN-001'' False 1000)
             = Dispose (disposePayload ''bin-001'' ''MMC-BIN-001'' False 1000)"
    by (simp add: disposeAction_def)
  have b: "find (\<lambda>item. bin_id item = d_binId (disposePayload ''bin-001'' ''MMC-BIN-001'' False 1000))
             (bins (DEFAULT_STATE 0)) = Some (hd (MADURAI_BINS 0))"
    by (simp add: disposePayload_def example_find_bin1)
  have c: "disposals (DEFAULT_STATE 0) = []" "history (wallet (DEFAULT_STATE 0)) = []"
    by (simp_all add: DEFAULT_STATE_def)
  have d: "d_wasteSize (disposePayload ''bin-001'' ''MMC-BIN-001'' False 1000) = large"
    by (simp add: disposePayload_def)
  obtain r1 where r1: "disposals stateAfterFirstDisposal = [r1]" "verified r1"
    using first_disposal_record by blast
  from dispose_points_awarded [OF a b, of "hostAt 1000"] r1
  have "pointsAwarded r1 = 70
        \<and> (\<exists>e1 e2. history (wallet stateAfterFirstDisposal) = [e1, e2]
              \<and> we_type e1 = earn \<and> we_points e1 = 20 \<and> we_type e2 = earn \<and> we_points e2 = 50)"
    unfolding stateAfterFirstDisposal_def [symmetric]
    by (auto simp add: c d)
  with a b r1 show ?thesis by blast
qed

section \<open>Redeeming a reward\<close>

text \<open>
  Claim C4 as stated fails in its last part. The expiry is counted from the host's
  clock when the action is applied (\<open>Date.now()\<close>), while the record's creation time
  \<open>createdAt\<close> is the action's own. A redemption created at time 5000 while the
  device is offline and applied from the queue when the clock reads 36005000 gives a
  record created at 5000 that expires at 1245605000, which is not 14 days (1209600000
  ms) after 5000.
\<close>

theorem redeem_expiry_counterexample:
  "length (redemptions (applyAction (hostAt 36005000) stateAfterFirstDisposal
       (redeemAction 5000))) = 1
   \<and> rr_status (hd (redemptions (applyAction (hostAt 36005000) stateAfterFirstDisposal
       (redeemAction 5000)))) = active
   \<and> rr_createdAt (hd (redemptions (applyAction (hostAt 36005000) stateAfterFirstDisposal
       (redeemAction 5000)))) = 5000
   \<and> rr_expiresAt (hd (redemptions (applyAction (hostAt 36005000) stateAfterFirstDisposal
       (redeemAction 5000)))) = 1245605000
   \<and> rr_expiresAt (hd (redemptions (applyAction (hostAt 36005000) stateAfterFirstDisposal
       (redeemAction 5000))))
     \<noteq> rr_createdAt (hd (redemptions (applyAction (hostAt 36005000) stateAfterFirstDisposal
       (redeemAction 5000)))) + 14 * 24 * 60 * 60 * 1000"
  by (simp add: applyAction_def applyRedeemReward_def redeemAction_def redeemPayload_def
      Let_def hostAt_def first_disposal_wallet first_disposal_redemptions)

text \<open>
  Claim C4, amended. For every redeem_reward action: when the wallet balance is below
  pointsRequired, the wallet (balance and history) and the redemption list are left
  unchanged, nothing but the log changes, and the log reports the redemption as blocked
  for insufficient points. Otherwise exactly pointsRequired is taken off the balance,
  exactly one redeem ledger entry of pointsRequired points is put in front of the
  history, and exactly one RedemptionRecord is put in front of the redemption list,
  with status active, with the action's creation timestamp as its createdAt, and with
  an expiry 14 days after the clock reading at the moment the action is applied.
\<close>

theorem redeem_reward_effect:
  assumes "pa_payload action = Redeem_reward payload"
  shows "(points (wallet state) < rd_pointsRequired payload \<longrightarrow>
            wallet (applyAction h state action) = wallet state
            \<and> redemptions (applyAction h state action) = redemptions state
            \<and> applyAction h state action
                = state\<lparr> syncLog :=
                    take 40 ((localeTimeString h @ '' - Redemption blocked: insufficient points.'')
                             # syncLog state) \<rparr>)
         \<and> (\<not> points (wallet state) < rd_pointsRequired payload \<longrightarrow>
              points (wallet (applyAction h state action))
                = points (wallet state) - rd_pointsRequired payload
              \<and> (\<exists>e. history (wallet (applyAction h state action)) = e # history (wallet state)
                     \<and> we_type e = redeem \<and> we_points e = rd_pointsRequired payload)
              \<and> (\<exists>r. redemptions (applyAction h state action) = r # redemptions state
                     \<and> rr_id r = pa_id action \<and> rr_status r = active
                     \<and> rr_pointsUsed r = rd_pointsRequired payload
                     \<and> rr_createdAt r = rd_createdAt payload
                     \<and> rr_expiresAt r = dateNow h + 14 * 24 * 60 * 60 * 1000))"
  using assms
  by (simp add: applyAction_def applyRedeemReward_def Let_def addLog_def)

text \<open>
  With balance 0 the 50-point redemption is blocked; with balance 70 (after the first
  disposal) it leaves 20 points, one redeem entry of 50 points, and one active
  redemption created at 5000 and expiring 14 days (1209600000 ms) after the clock
  reading 5000.
\<close>

theorem redeem_reward_effect_witness:
  "pa_payload (redeemAction 5000) = Redeem_reward (redeemPayload 5000)
   \<and> points (wallet (DEFAULT_STATE 0)) < rd_pointsRequired (redeemPayload 5000)
   \<and> wallet (applyAction (hostAt 5000) (DEFAULT_STATE 0) (redeemAction 5000))
       = wallet (DEFAULT_STATE 0)
   \<and> redemptions (applyAction (hostAt 5000) (DEFAULT_STATE 0) (redeemAction 5000)) = []
   \<and> \<not> points (wallet stateAfterFirstDisposal) < rd_pointsRequired (redeemPayload 5000)
   \<and> points (wallet stateAfterFirstDisposal) = 70
   \<and> points (wallet (applyAction (hostAt 5000) stateAfterFirstDisposal (redeemAction 5000))) = 20
   \<and> (\<exists>e. history (wallet (applyAction (hostAt 5000) stateAfterFirstDisposal (redeemAction 5000)))
              = e # history (wallet stateAfterFirstDisposal)
          \<and> we_type e = redeem \<and> we_points e = 50)
   \<and> (\<exists>r. redemptions (applyAction (hostAt 5000) stateAfterFirstDisposal (redeemAction 5000)) = [r]
          \<and> rr_status r = active \<and> rr_createdAt r = 5000 \<and> rr_expiresAt r = 1209605000)"
proof -
  have a: "pa_payload (redeemAction 5000) = Redeem_reward (redeemPayload 5000)"
    by (simp add: redeemAction_def)
  have p: "rd_pointsRequired (redeemPayload 5000) = 50" "rd_createdAt (redeemPayload 5000) = 5000"
    by (simp_all add: redeemPayload_def)
  have z: "points (wallet (DEFAULT_STATE 0)) = 0" "redemptions (DEFAULT_STATE 0) = []"
    by (simp_all add: DEFAULT_STATE_def)
  have w: "points (wallet stateAfterFirstDisposal) = 70"
    using first_disposal_wallet by simp
  have n: "dateNow (hostAt 5000) = 5000"
    by (simp add: hostAt_def)
  from redeem_reward_effect [OF a, of "DEFAULT_STATE 0" "hostAt 5000"]
       redeem_reward_effect [OF a, of stateAfterFirstDisposal "hostAt 5000"]
  show ?thesis
    by (simp add: a p z w n first_disposal_redemptions) blast
qed

section \<open>Disposal: the cooldown flag\<close>

text \<open>
  The cooldown cutoff is taken from the host's clock when the action is applied
  (\<open>Date.now()\<close>), not from the action's own creation timestamp.
\<close>

lemma dispose_cooldown_flag:
  assumes "pa_payload action = Dispose payload"
      and "find (\<lambda>item. bin_id item = d_binId payload) (bins state) = Some b"
  shows "\<exists>r. disposals (applyAction h state action) = r # disposals state
          \<and> (cooldown_violation \<in> set (dr_fraudFlags r) \<longleftrightarrow>
               (\<exists>item \<in> set (disposals state).
                   dr_userId item = d_userId payload \<and> dr_binId item = d_binId payload
                   \<and> dr_createdAt item > dateNow h - 2 * 60 * 60 * 1000))"
  using assms
  by (simp add: applyAction_def applyDispose_def Let_def if_distrib[of disposals] list_ex_iff
      DISPOSAL_COOLDOWN_HOURS_def)

text \<open>
  Claim C5 as stated fails. The first disposal was created at time 1000. A second
  disposal by the same user at the same bin is created one hour later (3601000) while
  the device is offline, and is applied from the queue when the clock reads 36001000.
  The earlier disposal lies within the two hours before the new action's creation
  timestamp, yet no cooldown_violation flag is raised.
\<close>

theorem cooldown_window_counterexample:
  "length (disposals (applyAction (hostAt 36001000) stateAfterFirstDisposal
       (disposeAction ''dispose-2'' ''bin-001'' ''MMC-BIN-001'' False 3601000))) = 2
   \<and> cooldown_violation \<notin> set (dr_fraudFlags (hd (disposals
       (applyAction (hostAt 36001000) stateAfterFirstDisposal
          (disposeAction ''dispose-2'' ''bin-001'' ''MMC-BIN-001'' False 3601000)))))
   \<and> length (disposals stateAfterFirstDisposal) = 1
   \<and> dr_userId (hd (disposals stateAfterFirstDisposal))
       = d_userId (disposePayload ''bin-001'' ''MMC-BIN-001'' False 3601000)
   \<and> dr_binId (hd (disposals stateAfterFirstDisposal))
       = d_binId (disposePayload ''bin-001'' ''MMC-BIN-001'' False 3601000)
   \<and> d_createdAt (disposePayload ''bin-001'' ''MMC-BIN-001'' False 3601000)
        - 2 * 60 * 60 * 1000 < dr_createdAt (hd (disposals stateAfterFirstDisposal))
   \<and> dr_createdAt (hd (disposals stateAfterFirstDisposal))
       \<le> d_createdAt (disposePayload ''bin-001'' ''MMC-BIN-001'' False 3601000)"
proof -
  obtain r1 where r1: "disposals stateAfterFirstDisposal = [r1]"
      "dr_userId r1 = ''demo-user-001''" "dr_binId r1 = ''bin-001''" "dr_createdAt r1 = 1000"
    using first_disposal_record by blast
  have a: "pa_payload (disposeAction ''dispose-2'' ''bin-001'' ''MMC-BIN-001'' False 3601000)
             = Dispose (disposePayload ''bin-001'' ''MMC-BIN-001'' False 3601000)"
    by (simp add: disposeAction_def)
  have b: "find (\<lambda>item. bin_id item = d_binId (disposePayload ''bin-001'' ''MMC-BIN-001'' False 3601000))
             (bins stateAfterFirstDisposal)
           = Some ((hd (MADURAI_BINS 0))\<lparr> bin_lastUsedAt := Some 1000 \<rparr>)"
    by (simp add: disposePayload_def first_disposal_bins)
  from dispose_cooldown_flag [OF a b, of "hostAt 36001000"]
  have "length (disposals (applyAction (hostAt 36001000) stateAfterFirstDisposal
          (disposeAction ''dispose-2'' ''bin-001'' ''MMC-BIN-001'' False 3601000))) = 2
        \<and> cooldown_violation \<notin> set (dr_fraudFlags (hd (disposals
          (applyAction (hostAt 36001000) stateAfterFirstDisposal
             (disposeAction ''dispose-2'' ''bin-001'' ''MMC-BIN-001'' False 3601000)))))"
    by (auto simp add: r1 hostAt_def disposePayload_def)
  then show ?thesis
    by (simp add: r1 disposePayload_def)
qed

text \<open>
  Claim C5, amended. For every dispose action whose bin id resolves to an existing bin,
  the cooldown_violation flag is raised if and only if the state holds a disposal of
  the same user at the same bin whose creation timestamp is later than the clock
  reading at the moment the action is applied minus 2 hours
  (DISPOSAL_COOLDOWN_HOURS), whether or not that earlier disposal was verified.
\<close>

theorem dispose_cooldown_flag_iff:
  assumes "pa_payload action = Dispose payload"
      and "find (\<lambda>item. bin_id item = d_binId payload) (bins state) = Some b"
  shows "\<exists>r. disposals (applyAction h state action) = r # disposals state
          \<and> (cooldown_violation \<in> set (dr_fraudFlags r) \<longleftrightarrow>
               (\<exists>item \<in> set (disposals state).
                   dr_userId item = d_userId payload \<and> dr_binId item = d_binId payload
                   \<and> dr_createdAt item > dateNow h - DISPOSAL_COOLDOWN_HOURS * 60 * 60 * 1000))"
  using dispose_cooldown_flag [OF assms, of h]
  by (simp add: DISPOSAL_COOLDOWN_HOURS_def)

text \<open>
  A second disposal at the same bin, created and applied at time 2000, one second after
  the first: the flag is raised.
\<close>

theorem dispose_cooldown_flag_iff_witness:
  "pa_payload (disposeAction ''dispose-2'' ''bin-001'' ''MMC-BIN-001'' False 2000)
     = Dispose (disposePayload ''bin-001'' ''MMC-BIN-001'' False 2000)
   \<and> find (\<lambda>item. bin_id item = d_binId (disposePayload ''bin-001'' ''MMC-BIN-001'' False 2000))
        (bins stateAfterFirstDisposal)
       = Some ((hd (MADURAI_BINS 0))\<lparr> bin_lastUsedAt := Some 1000 \<rparr>)
   \<and> (\<exists>r. disposals (applyAction (hostAt 2000) stateAfterFirstDisposal
               (disposeAction ''dispose-2'' ''bin-001'' ''MMC-BIN-001'' False 2000))
             = r # disposals stateAfterFirstDisposal
          \<and> cooldown_violation \<in> set (dr_fraudFlags r))"
proof -
  obtain r1 where r1: "disposals stateAfterFirstDisposal = [r1]"
      "dr_userId r1 = ''demo-user-001''" "dr_binId r1 = ''bin-001''" "dr_createdAt r1 = 1000"
    using first_disposal_record by blast
  have a: "pa_payload (disposeAction ''dispose-2'' ''bin-001'' ''MMC-BIN-001'' False 2000)
             = Dispose (disposePayload ''bin-001'' ''MMC-BIN-001'' False 2000)"
    by (simp add: disposeAction_def)
  have b: "find (\<lambda>item. bin_id item = d_binId (disposePayload ''bin-001'' ''MMC-BIN-001'' False 2000))
             (bins stateAfterFirstDisposal)
           = Some ((hd (MADURAI_BINS 0))\<lparr> bin_lastUsedAt := Some 1000 \<rparr>)"
    by (simp add: disposePayload_def first_disposal_bins)
  from dispose_cooldown_flag_iff [OF a b, of "hostAt 2000"] a b show ?thesis
    by (auto simp add: r1 hostAt_def disposePayload_def DISPOSAL_COOLDOWN_HOURS_def)
qed

section \<open>The used-hash set\<close>

lemma dispose_used_hashes:
  assumes "pa_payload action = Dispose payload"
  shows "usedImageHashes (applyAction h state action) =
           (if find (\<lambda>item. bin_id item = d_binId payload) (bins state) = None
               \<or> imageHash (d_photoUri payload) \<in> set (usedImageHashes state)
            then usedImageHashes state
            else imageHash (d_photoUri payload) # usedImageHashes state)"
  using assms
  by (simp add: applyAction_def applyDispose_def Let_def if_distrib[of usedImageHashes]
      isDuplicateImage_def split: option.split)

lemma report_used_hashes:
  assumes "pa_payload action = Report_issue payload"
  shows "usedImageHashes (applyAction h state action) =
           (if imageHash (ri_photoUri payload) \<in> set (usedImageHashes state)
            then usedImageHashes state
            else imageHash (ri_photoUri payload) # usedImageHashes state)"
  using assms
  by (simp add: applyAction_def applyReportIssue_def Let_def isDuplicateImage_def)

lemma cleanup_used_hashes:
  assumes "pa_payload action = Submit_cleanup payload"
  shows "usedImageHashes (applyAction h state action) =
           (if findIndex (\<lambda>item. c_id item = sc_complaintId payload) (complaints state) = None
               \<or> imageHash (sc_photoUri payload) \<in> set (usedImageHashes state)
            then usedImageHashes state
            else imageHash (sc_photoUri payload) # usedImageHashes state)"
  using assms
  by (simp add: applyAction_def applySubmitCleanup_def Let_def isDuplicateImage_def
      split: option.split)

lemma example_image_hashes:
  "imageHash ''file:///cam/IMG_0001.jpg'' = ''69f8e921''"
  "imageHash ''file:///cam/IMG_0002.jpg'' = ''6a0700a2''"
  "imageHash ''file:///cam/IMG_0003.jpg'' = ''6a151823''"
  by (simp_all add: imageHash_def hashString_def toInt32_def padStart_def toString16.simps
      hexDigit_def)

lemma example_no_bin999:
  "find (\<lambda>item. bin_id item = ''bin-999'') (bins (DEFAULT_STATE 0)) = None"
  by (simp add: DEFAULT_STATE_def MADURAI_BINS_def)

lemma report_complaints:
  "complaints stateAfterReport \<noteq> [] \<and> c_id (hd (complaints stateAfterReport)) = ''complaint-1''"
  by (simp add: stateAfterReport_def applyAction_def applyReportIssue_def Let_def
      reportAction_def)

lemma report_find_complaint:
  "findIndex (\<lambda>item. c_id item = ''complaint-1'') (complaints stateAfterReport) = Some 0"
  using report_complaints by (cases "complaints stateAfterReport") simp_all

lemma report_state_used: "usedImageHashes stateAfterReport = [''6a0700a2'']"
  using report_used_hashes [of "reportAction 3000" "reportPayload 3000" "hostAt 3000" "DEFAULT_STATE 0"]
  by (simp add: stateAfterReport_def reportAction_def reportPayload_def DEFAULT_STATE_def
      example_image_hashes)

lemma first_disposal_used: "usedImageHashes stateAfterFirstDisposal = [''69f8e921'']"
  using dispose_used_hashes [of "disposeAction ''dispose-1'' ''bin-001'' ''MMC-BIN-001'' False 1000"
      "disposePayload ''bin-001'' ''MMC-BIN-001'' False 1000" "hostAt 1000" "DEFAULT_STATE 0"]
  by (simp add: stateAfterFirstDisposal_def disposeAction_def disposePayload_def
      example_find_bin1 example_image_hashes) (simp add: DEFAULT_STATE_def)

text \<open>
  Claim C6 as stated fails: a dispose action whose bin id does not resolve returns
  before the hash is recorded, so a new, non-duplicate hash is not added. Bin
  \<open>bin-999\<close> is not in the registry; the used-hash set is empty before and after.
\<close>

theorem used_hash_bin_not_found_counterexample:
  "imageHash (d_photoUri (disposePayload ''bin-999'' ''MMC-BIN-001'' False 1000))
     \<notin> set (usedImageHashes (DEFAULT_STATE 0))
   \<and> imageHash (d_photoUri (disposePayload ''bin-999'' ''MMC-BIN-001'' False 1000))
     \<notin> set (usedImageHashes (applyAction (hostAt 1000) (DEFAULT_STATE 0)
                (disposeAction ''dispose-1'' ''bin-999'' ''MMC-BIN-001'' False 1000)))"
  using dispose_used_hashes [of "disposeAction ''dispose-1'' ''bin-999'' ''MMC-BIN-001'' False 1000"
      "disposePayload ''bin-999'' ''MMC-BIN-001'' False 1000" "hostAt 1000" "DEFAULT_STATE 0"]
  by (simp add: disposeAction_def disposePayload_def example_no_bin999)
     (simp add: DEFAULT_STATE_def)

text \<open>
  Claim C6, amended. For a dispose action whose bin id resolves, for every report_issue
  action, and for a submit_cleanup action whose complaint id resolves, the submitted
  photo's content hash is added to the used-hash list whatever the verdict on the
  submission, unless the hash is already there (the submission is then flagged as a
  duplicate): the list grows by exactly the new hash at its head, and is left unchanged
  when the hash was already present. A dispose or submit_cleanup action whose lookup
  fails leaves the used-hash list unchanged.
\<close>

theorem used_hashes_grow_by_new_hash:
  "(pa_payload action = Dispose dp
      \<and> find (\<lambda>item. bin_id item = d_binId dp) (bins state) \<noteq> None \<longrightarrow>
      usedImageHashes (applyAction h state action)
        = (if imageHash (d_photoUri dp) \<in> set (usedImageHashes state)
           then usedImageHashes state
           else imageHash (d_photoUri dp) # usedImageHashes state)
      \<and> set (usedImageHashes (applyAction h state action))
          = insert (imageHash (d_photoUri dp)) (set (usedImageHashes state)))
   \<and> (pa_payload action = Report_issue rp \<longrightarrow>
      usedImageHashes (applyAction h state action)
        = (if imageHash (ri_photoUri rp) \<in> set (usedImageHashes state)
           then usedImageHashes state
           else imageHash (ri_photoUri rp) # usedImageHashes state)
      \<and> set (usedImageHashes (applyAction h state action))
          = insert (imageHash (ri_photoUri rp)) (set (usedImageHashes state)))
   \<and> (pa_payload action = Submit_cleanup cp
      \<and> findIndex (\<lambda>item. c_id item = sc_complaintId cp) (complaints state) \<noteq> None \<longrightarrow>
      usedImageHashes (applyAction h state action)
        = (if imageHash (sc_photoUri cp) \<in> set (usedImageHashes state)
           then usedImageHashes state
           else imageHash (sc_photoUri cp) # usedImageHashes state)
      \<and> set (usedImageHashes (applyAction h state action))
          = insert (imageHash (sc_photoUri cp)) (set (usedImageHashes state)))
   \<and> (pa_payload action = Dispose dp
      \<and> find (\<lambda>item. bin_id item = d_binId dp) (bins state) = None \<longrightarrow>
      usedImageHashes (applyAction h state action) = usedImageHashes state)
   \<and> (pa_payload action = Submit_cleanup cp
      \<and> findIndex (\<lambda>item. c_id item = sc_complaintId cp) (complaints state) = None \<longrightarrow>
      usedImageHashes (applyAction h state action) = usedImageHashes state)"
proof (intro conjI impI)
  assume "pa_payload action = Dispose dp
          \<and> find (\<lambda>item. bin_id item = d_binId dp) (bins state) \<noteq> None"
  then show "usedImageHashes (applyAction h state action)
        = (if imageHash (d_photoUri dp) \<in> set (usedImageHashes state)
           then usedImageHashes state
           else imageHash (d_photoUri dp) # usedImageHashes state)"
    and "set (usedImageHashes (applyAction h state action))
          = insert (imageHash (d_photoUri dp)) (set (usedImageHashes state))"
    by (auto simp add: dispose_used_hashes)
next
  assume "pa_payload action = Report_issue rp"
  then show "usedImageHashes (applyAction h state action)
        = (if imageHash (ri_photoUri rp) \<in> set (usedImageHashes state)
           then usedImageHashes state
           else imageHash (ri_photoUri rp) # usedImageHashes state)"
    and "set (usedImageHashes (applyAction h state action))
          = insert (imageHash (ri_photoUri rp)) (set (usedImageHashes state))"
    by (auto simp add: report_used_hashes)
next
  assume "pa_payload action = Submit_cleanup cp
          \<and> findIndex (\<lambda>item. c_id item = sc_complaintId cp) (complaints state) \<noteq> None"
  then show "usedImageHashes (applyAction h state action)
        = (if imageHash (sc_photoUri cp) \<in> set (usedImageHashes state)
           then usedImageHashes state
           else imageHash (sc_photoUri cp) # usedImageHashes state)"
    and "set (usedImageHashes (applyAction h state action))
          = insert (imageHash (sc_photoUri cp)) (set (usedImageHashes state))"
    by (auto simp add: cleanup_used_hashes)
next
  assume "pa_payload action = Dispose dp
          \<and> find (\<lambda>item. bin_id item = d_binId dp) (bins state) = None"
  then show "usedImageHashes (applyAction h state action) = usedImageHashes state"
    by (simp add: dispose_used_hashes)
next
  assume "pa_payload action = Submit_cleanup cp
          \<and> findIndex (\<lambda>item. c_id item = sc_complaintId cp) (complaints state) = None"
  then show "usedImageHashes (applyAction h state action) = usedImageHashes state"
    by (simp add: cleanup_used_hashes)
qed

text \<open>
  One input for each case: a first disposal (the hash is added), the same photo again
  (unchanged), an unknown bin (unchanged), a complaint report (added), a cleanup proof
  for that complaint (added in front of the report's hash), and a cleanup proof for a
  complaint that does not exist (unchanged).
\<close>

theorem used_hashes_grow_by_new_hash_witness:
  "usedImageHashes (applyAction (hostAt 1000) (DEFAULT_STATE 0)
       (disposeAction ''dispose-1'' ''bin-001'' ''MMC-BIN-001'' False 1000)) = [''69f8e921'']
   \<and> usedImageHashes (applyAction (hostAt 2000) stateAfterFirstDisposal
       (disposeAction ''dispose-2'' ''bin-001'' ''MMC-BIN-001'' False 2000)) = [''69f8e921'']
   \<and> usedImageHashes (applyAction (hostAt 1000) (DEFAULT_STATE 0)
       (disposeAction ''dispose-1'' ''bin-999'' ''MMC-BIN-001'' False 1000)) = []
   \<and> usedImageHashes (applyAction (hostAt 3000) (DEFAULT_STATE 0) (reportAction 3000))
       = [''6a0700a2'']
   \<and> usedImageHashes (applyAction (hostAt 4000) stateAfterReport (cleanupAction 4000))
       = [''6a151823'', ''6a0700a2'']
   \<and> usedImageHashes (applyAction (hostAt 4000) (DEFAULT_STATE 0) (cleanupAction 4000)) = []"
proof -
  have d0: "usedImageHashes (DEFAULT_STATE 0) = []" "complaints (DEFAULT_STATE 0) = []"
    by (simp_all add: DEFAULT_STATE_def)
  have 1: "usedImageHashes (applyAction (hostAt 1000) (DEFAULT_STATE 0)
       (disposeAction ''dispose-1'' ''bin-001'' ''MMC-BIN-001'' False 1000)) = [''69f8e921'']"
    using used_hashes_grow_by_new_hash
      [of "disposeAction ''dispose-1'' ''bin-001'' ''MMC-BIN-001'' False 1000"
          "disposePayload ''bin-001'' ''MMC-BIN-001'' False 1000" "DEFAULT_STATE 0" "hostAt 1000"]
    by (simp add: disposeAction_def disposePayload_def example_find_bin1 example_image_hashes d0)
  have 2: "usedImageHashes (applyAction (hostAt 2000) stateAfterFirstDisposal
       (disposeAction ''dispose-2'' ''bin-001'' ''MMC-BIN-001'' False 2000)) = [''69f8e921'']"
    using used_hashes_grow_by_new_hash
      [of "disposeAction ''dispose-2'' ''bin-001'' ''MMC-BIN-001'' False 2000"
          "disposePayload ''bin-001'' ''MMC-BIN-001'' False 2000" stateAfterFirstDisposal
          "hostAt 2000"]
    by (simp add: disposeAction_def disposePayload_def first_disposal_bins example_image_hashes
        first_disposal_used)
  have 3: "usedImageHashes (applyAction (hostAt 1000) (DEFAULT_STATE 0)
       (disposeAction ''dispose-1'' ''bin-999'' ''MMC-BIN-001'' False 1000)) = []"
    using used_hashes_grow_by_new_hash
      [of "disposeAction ''dispose-1'' ''bin-999'' ''MMC-BIN-001'' False 1000"
          "disposePayload ''bin-999'' ''MMC-BIN-001'' False 1000" "DEFAULT_STATE 0" "hostAt 1000"]
    by (simp add: disposeAction_def disposePayload_def example_no_bin999 d0)
  have 4: "usedImageHashes (applyAction (hostAt 3000) (DEFAULT_STATE 0) (reportAction 3000))
       = [''6a0700a2'']"
    using used_hashes_grow_by_new_hash
      [of "reportAction 3000" _ "DEFAULT_STATE 0" "hostAt 3000" "reportPayload 3000"]
    by (simp add: reportAction_def reportPayload_def example_image_hashes d0)
  have 5: "usedImageHashes (applyAction (hostAt 4000) stateAfterReport (cleanupAction 4000))
       = [''6a151823'', ''6a0700a2'']"
    using used_hashes_grow_by_new_hash
      [of "cleanupAction 4000" _ stateAfterReport "hostAt 4000" _ "cleanupPayload 4000"]
    by (simp add: cleanupAction_def cleanupPayload_def report_find_complaint
        example_image_hashes report_state_used)
  have 6: "usedImageHashes (applyAction (hostAt 4000) (DEFAULT_STATE 0) (cleanupAction 4000)) = []"
    using used_hashes_grow_by_new_hash
      [of "cleanupAction 4000" _ "DEFAULT_STATE 0" "hostAt 4000" _ "cleanupPayload 4000"]
    by (simp add: cleanupAction_def cleanupPayload_def d0)
  from 1 2 3 4 5 6 show ?thesis by simp
qed

section \<open>The wallet balance\<close>

lemma ledger_Cons_earn:
  "we_type e = earn \<Longrightarrow> ledgerBalance (e # es) = we_points e + ledgerBalance es"
  by (simp add: ledgerBalance_def)

lemma ledger_Cons_redeem:
  "we_type e = redeem \<Longrightarrow> ledgerBalance (e # es) = ledgerBalance es - we_points e"
  by (simp add: ledgerBalance_def)

lemma applyDispose_wallet:
  "points (wallet state) = ledgerBalance (history (wallet state)) \<Longrightarrow>
   points (wallet (applyDispose h state actionId payload))
     = ledgerBalance (history (wallet (applyDispose h state actionId payload)))"
  by (cases "d_wasteSize payload")
     (simp_all add: applyDispose_def Let_def if_distrib[of wallet] ledger_Cons_earn
        FIRST_TIME_USER_BONUS_POINTS_def split: option.split)

lemma applyAction_wallet:
  "points (wallet state) = ledgerBalance (history (wallet state)) \<Longrightarrow>
   points (wallet (applyAction h state action))
     = ledgerBalance (history (wallet (applyAction h state action)))"
  by (simp add: applyAction_def applyDispose_wallet applyReportIssue_def applyReportBinFull_def
        applySubmitCleanup_def applyVerifyCleanup_def applyRedeemReward_def Let_def
        ledger_Cons_redeem
      split: action_payload.split option.split)

text \<open>
  Claim C7. In every state reachable from the initial state by applying any sequence of
  actions, the wallet balance equals the sum of the points of the earn entries of the
  wallet history minus the sum of the points of its redeem entries.
\<close>

theorem wallet_balance_is_ledger_fold:
  assumes "reachable loadedAt state"
  shows "points (wallet state)
           = sum_list (map we_points (filter (\<lambda>entry. we_type entry = earn) (history (wallet state))))
             - sum_list (map we_points
                 (filter (\<lambda>entry. we_type entry = redeem) (history (wallet state))))"
proof -
  from assms have "points (wallet state) = ledgerBalance (history (wallet state))"
  proof (induction rule: reachable.induct)
    case reachable_init
    show ?case by (simp add: DEFAULT_STATE_def ledgerBalance_def)
  next
    case (reachable_step state h action)
    from reachable_step.IH show ?case by (rule applyAction_wallet)
  qed
  then show ?thesis by (simp add: ledgerBalance_def)
qed

text \<open>
  The state after the first disposal followed by the 50-point redemption is reachable;
  its balance is 20 = (20 + 50) - 50.
\<close>

theorem wallet_balance_is_ledger_fold_witness:
  "reachable 0 (applyAction (hostAt 5000) stateAfterFirstDisposal (redeemAction 5000))
   \<and> points (wallet (applyAction (hostAt 5000) stateAfterFirstDisposal (redeemAction 5000))) = 20
   \<and> sum_list (map we_points (filter (\<lambda>entry. we_type entry = earn)
        (history (wallet (applyAction (hostAt 5000) stateAfterFirstDisposal (redeemAction 5000))))))
      - sum_list (map we_points (filter (\<lambda>entry. we_type entry = redeem)
        (history (wallet (applyAction (hostAt 5000) stateAfterFirstDisposal (redeemAction 5000))))))
      = 20"
proof -
  have r1: "reachable 0 stateAfterFirstDisposal"
    unfolding stateAfterFirstDisposal_def by (rule reachable_step) (rule reachable_init)
  have r2: "reachable 0 (applyAction (hostAt 5000) stateAfterFirstDisposal (redeemAction 5000))"
    using r1 by (rule reachable_step)
  have p: "points (wallet (applyAction (hostAt 5000) stateAfterFirstDisposal (redeemAction 5000)))
             = 20"
    using first_disposal_wallet
    by (simp add: applyAction_def applyRedeemReward_def redeemAction_def redeemPayload_def Let_def)
  from wallet_balance_is_ledger_fold [OF r2] r2 p show ?thesis by simp
qed

section \<open>Location capture\<close>

text \<open>
  Claim C8 as stated fails in its last part. A fix with accuracy 5 m that is 60 s old
  (older than the 30 s limit), not mocked, comes back as a snapshot with no error at
  all: \<open>getHighAccuracyLocation\<close> never looks at the age.
\<close>

theorem stale_fix_no_advisory_counterexample:
  "error (getHighAccuracyLocation True (Some (positionAt 5 False 0)) 60000) = None
   \<and> map_option ageSeconds
        (snapshot (getHighAccuracyLocation True (Some (positionAt 5 False 0)) 60000)) = Some 60
   \<and> MAX_LOCATION_AGE_SECONDS < 60"
  by (simp add: getHighAccuracyLocation_def requestLocationPermission_def positionAt_def
      positionTimestamp_def timeClip_def
      Let_def MAX_ALLOWED_ACCURACY_METERS_def MAX_LOCATION_AGE_SECONDS_def)

text \<open>
  Claim C8, amended. With the permission granted and a position obtained whose
  timestamp is missing or a valid time, the location capture rejects outright, with no
  snapshot, when the fix is flagged as mocked; otherwise it returns the snapshot, and it
  surfaces a non-fatal advisory error alongside the still-present snapshot exactly when
  the accuracy exceeds the 10 m ceiling. The age of the fix is recorded in the snapshot
  and has no influence on the error. A refused permission, a failed fetch, and a
  position whose numeric timestamp is not a valid time (mocked or not) give an error and
  no snapshot.
\<close>

theorem location_capture_outcome:
  "(\<not> granted \<longrightarrow>
      getHighAccuracyLocation granted fetched nowMs
        = \<lparr> snapshot = None, error = Some ''Location access is required to continue.'' \<rparr>)
   \<and> (granted \<and> fetched = None \<longrightarrow>
      getHighAccuracyLocation granted fetched nowMs
        = \<lparr> snapshot = None, error = Some ''Failed to fetch location. Try again.'' \<rparr>)
   \<and> (granted \<and> fetched = Some pos \<and> positionTimestamp pos nowMs = None \<longrightarrow>
      getHighAccuracyLocation granted fetched nowMs
        = \<lparr> snapshot = None, error = Some ''Failed to fetch location. Try again.'' \<rparr>)
   \<and> (granted \<and> fetched = Some pos \<and> positionTimestamp pos nowMs = Some ts
       \<and> pc_mocked (pos_coords pos) = Some True \<longrightarrow>
      getHighAccuracyLocation granted fetched nowMs
        = \<lparr> snapshot = None, error = Some ''Fake GPS detected. Action blocked.'' \<rparr>)
   \<and> (granted \<and> fetched = Some pos \<and> positionTimestamp pos nowMs = Some ts
       \<and> pc_mocked (pos_coords pos) \<noteq> Some True \<longrightarrow>
      (\<exists>snap. snapshot (getHighAccuracyLocation granted fetched nowMs) = Some snap
         \<and> \<not> isMocked snap
         \<and> ls_accuracyMeters snap
             = max (case pc_accuracy (pos_coords pos) of Some a \<Rightarrow> a | None \<Rightarrow> 999) 0
         \<and> ls_timestamp snap = ts
         \<and> ageSeconds snap = max (real_of_int (nowMs - ts) / 1000) 0
         \<and> error (getHighAccuracyLocation granted fetched nowMs)
             = (if ls_accuracyMeters snap > 10
                then Some ''Move to an open area for better GPS accuracy.'' else None)))
   \<and> (positionTimestamp pos nowMs = None \<longleftrightarrow>
        pos_timestamp pos = Some non_finite
        \<or> (\<exists>x. pos_timestamp pos = Some (finite_number x) \<and> \<bar>x\<bar> > 8640000000000000))"
proof (intro conjI impI)
  show "(positionTimestamp pos nowMs = None) =
        (pos_timestamp pos = Some non_finite
         \<or> (\<exists>x. pos_timestamp pos = Some (finite_number x) \<and> \<bar>x\<bar> > 8640000000000000))"
    by (auto simp add: positionTimestamp_def timeClip_def
        split: option.splits device_number.splits if_splits)
qed (auto simp add: getHighAccuracyLocation_def requestLocationPermission_def Let_def
      MAX_ALLOWED_ACCURACY_METERS_def split: option.split)

text \<open>
  One input for each case: permission refused, fetch failed, a mocked fix whose
  timestamp is \<open>NaN\<close>, a mocked fix, a fix with accuracy 25 m (advisory and snapshot),
  and a fix with accuracy 5 m (snapshot only).
\<close>

theorem location_capture_outcome_witness:
  "getHighAccuracyLocation False (Some (positionAt 5 False 0)) 1000
     = \<lparr> snapshot = None, error = Some ''Location access is required to continue.'' \<rparr>
   \<and> getHighAccuracyLocation True None 1000
     = \<lparr> snapshot = None, error = Some ''Failed to fetch location. Try again.'' \<rparr>
   \<and> positionTimestamp (positionWithoutTime True) 1000 = None
   \<and> getHighAccuracyLocation True (Some (positionWithoutTime True)) 1000
     = \<lparr> snapshot = None, error = Some ''Failed to fetch location. Try again.'' \<rparr>
   \<and> positionTimestamp (positionAt 5 True 0) 1000 = Some 0
   \<and> getHighAccuracyLocation True (Some (positionAt 5 True 0)) 1000
     = \<lparr> snapshot = None, error = Some ''Fake GPS detected. Action blocked.'' \<rparr>
   \<and> snapshot (getHighAccuracyLocation True (Some (positionAt 25 False 0)) 1000) \<noteq> None
   \<and> error (getHighAccuracyLocation True (Some (positionAt 25 False 0)) 1000)
       = Some ''Move to an open area for better GPS accuracy.''
   \<and> snapshot (getHighAccuracyLocation True (Some (positionAt 5 False 0)) 1000) \<noteq> None
   \<and> error (getHighAccuracyLocation True (Some (positionAt 5 False 0)) 1000) = None"
proof -
  have m: "pc_mocked (pos_coords (positionAt 5 True 0)) = Some True"
      "pc_mocked (pos_coords (positionAt 25 False 0)) \<noteq> Some True"
      "pc_mocked (pos_coords (positionAt 5 False 0)) \<noteq> Some True"
      "pc_accuracy (pos_coords (positionAt 25 False 0)) = Some 25"
      "pc_accuracy (pos_coords (positionAt 5 False 0)) = Some 5"
    by (simp_all add: positionAt_def)
  have t: "positionTimestamp (positionAt 5 True 0) 1000 = Some 0"
      "positionTimestamp (positionAt 25 False 0) 1000 = Some 0"
      "positionTimestamp (positionAt 5 False 0) 1000 = Some 0"
      "positionTimestamp (positionWithoutTime True) 1000 = None"
    by (simp_all add: positionTimestamp_def positionAt_def positionWithoutTime_def timeClip_def)
  from location_capture_outcome [where granted = False and fetched = "Some (positionAt 5 False 0)"
         and nowMs = 1000]
  have 1: "getHighAccuracyLocation False (Some (positionAt 5 False 0)) 1000
     = \<lparr> snapshot = None, error = Some ''Location access is required to continue.'' \<rparr>"
    by simp
  from location_capture_outcome [where granted = True and fetched = None and nowMs = 1000]
  have 2: "getHighAccuracyLocation True None 1000
     = \<lparr> snapshot = None, error = Some ''Failed to fetch location. Try again.'' \<rparr>"
    by simp
  from location_capture_outcome [where granted = True
         and fetched = "Some (positionWithoutTime True)" and nowMs = 1000
         and pos = "positionWithoutTime True"]
  have 3: "getHighAccuracyLocation True (Some (positionWithoutTime True)) 1000
     = \<lparr> snapshot = None, error = Some ''Failed to fetch location. Try again.'' \<rparr>"
    by (simp add: t)
  from location_capture_outcome [where granted = True
         and fetched = "Some (positionAt 5 True 0)" and nowMs = 1000
         and pos = "positionAt 5 True 0" and ts = 0]
  have 4: "getHighAccuracyLocation True (Some (positionAt 5 True 0)) 1000
     = \<lparr> snapshot = None, error = Some ''Fake GPS detected. Action blocked.'' \<rparr>"
    by (simp add: m t)
  from location_capture_outcome [where granted = True
         and fetched = "Some (positionAt 25 False 0)" and nowMs = 1000
         and pos = "positionAt 25 False 0" and ts = 0]
  have 5: "snapshot (getHighAccuracyLocation True (Some (positionAt 25 False 0)) 1000) \<noteq> None
     \<and> error (getHighAccuracyLocation True (Some (positionAt 25 False 0)) 1000)
       = Some ''Move to an open area for better GPS accuracy.''"
    by (auto simp add: m t)
  from location_capture_outcome [where granted = True
         and fetched = "Some (positionAt 5 False 0)" and nowMs = 1000
         and pos = "positionAt 5 False 0" and ts = 0]
  have 6: "snapshot (getHighAccuracyLocation True (Some (positionAt 5 False 0)) 1000) \<noteq> None
     \<and> error (getHighAccuracyLocation True (Some (positionAt 5 False 0)) 1000) = None"
    by (auto simp add: m t)
  from 1 2 3 4 5 6 t show ?thesis by simp
qed

section \<open>Fraud alerts of one action\<close>




















end
